theory Spec2Isabelle
  imports Complex_Main "HOL-Library.Word"
begin

unbundle bit_operations_syntax

section \<open>The layout generator \<^verbatim>\<open>rpc_gds_export.py\<close>\<close>

text \<open>
  The script builds a list of polygons from literal layout parameters, plots them, writes
  a metadata document and checks the polygon count. It also defines a writer of
  length-prefixed binary records (\<^verbatim>\<open>GDSWriter\<close>).

  Numbers. The geometry is computed by the script in binary64 floating point. Here the
  coordinates are real numbers, and \<^verbatim>\<open>math.cos\<close>, \<^verbatim>\<open>math.sin\<close>,
  \<^verbatim>\<open>math.hypot\<close> are the real functions: an idealisation that leaves rounding out. The two
  tests of the geometry code that decide a branch are exact on finite floats as well:
  \<^verbatim>\<open>length == 0\<close> holds exactly when both differences are zero, and whichever branch
  \<^verbatim>\<open>points[0] != points[-1]\<close> takes, the registered polygon is closed and one entry is appended.
  The coordinates themselves are not the script's: its points are off the model's by
  rounding, and where the model's ring boundary ends in its first point, the sine of
  \<^verbatim>\<open>2*math.pi\<close> is not exactly zero in binary64, so that the script may append the first
  point as a 66th. No statement below depends on the value of a computed coordinate or on
  the length of a ring boundary; every one holds whichever branch \<^verbatim>\<open>add_polygon\<close> takes.
  The binary writer, whose claims depend on rounding and on bytes, is modelled on the bit
  patterns of binary64 values further below.
\<close>

subsection \<open>Exceptions\<close>

datatype error =
    IndexError
  | ZeroDivisionError
  | OverflowError
  | ValueError
  | StructError
  | AssertionError string

text \<open>An exception ends the run: the rest of a sequence is skipped.\<close>

definition bind_err :: "error + 'a \<Rightarrow> ('a \<Rightarrow> error + 'b) \<Rightarrow> error + 'b" where
  "bind_err m f = (case m of Inl e \<Rightarrow> Inl e | Inr x \<Rightarrow> f x)"

subsection \<open>The shared polygon list\<close>

text \<open>
  A Python list is a mutable object, and \<^verbatim>\<open>add_polygon\<close> stores the list it is given, not a
  copy. The model keeps the list objects in a store indexed by references; the global
  \<^verbatim>\<open>all_polygons\<close> holds pairs of a reference and a colour.
\<close>

type_synonym point = "real \<times> real"
type_synonym color = "real \<times> real \<times> real"
type_synonym ref = nat

record scene =
  heap :: "ref \<Rightarrow> point list"
  next_ref :: ref
  all_polygons :: "(ref \<times> color) list"

definition initial_scene :: scene where
  "initial_scene = \<lparr>heap = (\<lambda>_. []), next_ref = 0, all_polygons = []\<rparr>"

text \<open>Evaluating a list display or a list comprehension creates a new list object.\<close>

definition new_list :: "point list \<Rightarrow> scene \<Rightarrow> ref \<times> scene" where
  "new_list pts s =
     (next_ref s, s\<lparr>heap := (heap s)(next_ref s := pts), next_ref := Suc (next_ref s)\<rparr>)"

text \<open>
  \<^verbatim>\<open>
  def add_polygon(points, color=(0.8, 0.8, 0.8)):
      if points[0] != points[-1]:
          points.append(points[0])
      all_polygons.append((points, color))
  \<close>
  \<^verbatim>\<open>points[0]\<close> raises IndexError on the empty list, before anything is changed.
\<close>

definition add_polygon :: "ref \<Rightarrow> color \<Rightarrow> scene \<Rightarrow> error + scene" where
  "add_polygon points color s =
     (case heap s points of
        [] \<Rightarrow> Inl IndexError
      | p # ps \<Rightarrow>
          let s1 = (if p \<noteq> last (p # ps)
                    then s\<lparr>heap := (heap s)(points := (p # ps) @ [p])\<rparr>
                    else s)
          in Inr (s1\<lparr>all_polygons := all_polygons s1 @ [(points, color)]\<rparr>))"

definition is_closed :: "point list \<Rightarrow> bool" where
  "is_closed pts = (pts \<noteq> [] \<and> hd pts = last pts)"

definition all_closed :: "scene \<Rightarrow> bool" where
  "all_closed s = list_all (\<lambda>(r, c). is_closed (heap s r)) (all_polygons s)"

text \<open>
  The scenes that the script can be in: it starts with no polygon, creates lists, and
  registers lists that exist.
\<close>

inductive reachable :: "scene \<Rightarrow> bool" where
  initial: "reachable initial_scene"
| created: "reachable s \<Longrightarrow> reachable (snd (new_list pts s))"
| registered: "reachable s \<Longrightarrow> r < next_ref s \<Longrightarrow> add_polygon r c s = Inr s' \<Longrightarrow> reachable s'"

subsection \<open>Colours\<close>

text \<open>
  \<^verbatim>\<open>
  def hsl_to_rgb(h_deg, s=70, l=70):
      h, s, l = h_deg/360.0, s/100.0, l/100.0
      if s == 0: return (l, l, l)
      q = l * (1 + s) if l < 0.5 else l + s - l*s
      p = 2*l - q
      def hue2rgb(p, q, t):
          t %= 1
          if t < 1/6: return p + (q-p)*6*t
          if t < 1/2: return q
          if t < 2/3: return p + (q-p)*(2/3 - t)*6
          return p
      r = hue2rgb(p,q,h+1/3); g = hue2rgb(p,q,h); b = hue2rgb(p,q,h-1/3)
      return (r,g,b)
  \<close>
  Python's \<^verbatim>\<open>t % 1\<close> on a float is \<^verbatim>\<open>t - floor(t)\<close>.
\<close>

definition hue2rgb :: "real \<Rightarrow> real \<Rightarrow> real \<Rightarrow> real" where
  "hue2rgb p q t0 =
     (let t = t0 - of_int \<lfloor>t0\<rfloor>
      in if t < 1/6 then p + (q - p) * 6 * t
         else if t < 1/2 then q
         else if t < 2/3 then p + (q - p) * (2/3 - t) * 6
         else p)"

definition hsl_to_rgb :: "real \<Rightarrow> real \<Rightarrow> real \<Rightarrow> color" where
  "hsl_to_rgb h_deg s0 l0 =
     (let h = h_deg / 360; s = s0 / 100; l = l0 / 100
      in if s = 0 then (l, l, l)
         else
           let q = (if l < 0.5 then l * (1 + s) else l + s - l * s);
               p = 2 * l - q
           in (hue2rgb p q (h + 1/3), hue2rgb p q h, hue2rgb p q (h - 1/3)))"

subsection \<open>Layout parameters\<close>

definition bus_x_start :: real where "bus_x_start = 100"
definition core_x :: real where "core_x = 300"
definition core_y :: real where "core_y = 0"
definition core_size :: real where "core_size = 120"
definition mod_size :: real where "mod_size = 25"
definition wg_width :: real where "wg_width = 0.45"

subsection \<open>Geometry helpers\<close>

definition hypot :: "real \<Rightarrow> real \<Rightarrow> real" where
  "hypot dx dy = sqrt (dx * dx + dy * dy)"

text \<open>
  \<^verbatim>\<open>
  def waveguide_path(x0, y0, x1, y1, width=wg_width, color=(0.7,0.7,0.7)):
      dx, dy = x1-x0, y1-y0
      length = math.hypot(dx, dy)
      if length==0: return
      ux, uy = dx/length, dy/length
      px, py = -uy, ux
      half = width/2
      pts = [(x0+px*half, y0+py*half), (x1+px*half, y1+py*half),
             (x1-px*half, y1-py*half), (x0-px*half, y0-py*half)]
      add_polygon(pts, color)
      return pts
  \<close>
  The result is \<open>None\<close> for the bare \<^verbatim>\<open>return\<close> and the reference of \<^verbatim>\<open>pts\<close> otherwise.
\<close>

definition waveguide_path ::
  "real \<Rightarrow> real \<Rightarrow> real \<Rightarrow> real \<Rightarrow> real \<Rightarrow> color \<Rightarrow> scene \<Rightarrow> error + (ref option \<times> scene)" where
  "waveguide_path x0 y0 x1 y1 width color s =
     (let dx = x1 - x0; dy = y1 - y0;
          length = hypot dx dy
      in if length = 0 then Inr (None, s)
         else
           let ux = dx / length; uy = dy / length;
               px = - uy; py = ux;
               half = width / 2;
               (pts, s1) = new_list [(x0 + px * half, y0 + py * half),
                                     (x1 + px * half, y1 + py * half),
                                     (x1 - px * half, y1 - py * half),
                                     (x0 - px * half, y0 - py * half)] s
           in case add_polygon pts color s1 of
                Inl e \<Rightarrow> Inl e
              | Inr s2 \<Rightarrow> Inr (Some pts, s2))"

definition waveguide_default_color :: color where
  "waveguide_default_color = (0.7, 0.7, 0.7)"

text \<open>
  \<^verbatim>\<open>
  def ring_resonator_placeholder(xc, yc, radius=10.0, width=0.45, color=(0.5,0.5,0.5)):
      n = 64
      outer = [(xc + (radius+width/2)*math.cos(2*math.pi*i/n),
                yc + (radius+width/2)*math.sin(2*math.pi*i/n)) for i in range(n+1)]
      inner = [(xc + (radius-width/2)*math.cos(2*math.pi*i/n),
                yc + (radius-width/2)*math.sin(2*math.pi*i/n)) for i in range(n+1)]
      add_polygon(outer, color)
      add_polygon(inner, color=(1,1,1))
      return outer
  \<close>
\<close>

definition ring_resonator_placeholder ::
  "real \<Rightarrow> real \<Rightarrow> real \<Rightarrow> real \<Rightarrow> color \<Rightarrow> scene \<Rightarrow> error + (ref \<times> scene)" where
  "ring_resonator_placeholder xc yc radius width color s =
     (let n = 64 :: nat;
          (outer, s1) = new_list (map (\<lambda>i. (xc + (radius + width / 2) * cos (2 * pi * real i / real n),
                                             yc + (radius + width / 2) * sin (2 * pi * real i / real n)))
                                      [0 ..< n + 1]) s;
          (inner, s2) = new_list (map (\<lambda>i. (xc + (radius - width / 2) * cos (2 * pi * real i / real n),
                                             yc + (radius - width / 2) * sin (2 * pi * real i / real n)))
                                      [0 ..< n + 1]) s1
      in case add_polygon outer color s2 of
           Inl e \<Rightarrow> Inl e
         | Inr s3 \<Rightarrow>
             (case add_polygon inner (1, 1, 1) s3 of
                Inl e \<Rightarrow> Inl e
              | Inr s4 \<Rightarrow> Inr (outer, s4)))"

text \<open>
  \<^verbatim>\<open>
  def iq_mod_placeholder(x, y, size=25.0, color=(0.8,0.8,0.8)):
      pts = [(x,y), (x+size,y), (x+size,y+size), (x,y+size)]
      add_polygon(pts, color)
      return pts
  \<close>
  \<^verbatim>\<open>detector_placeholder\<close> has the same body.
\<close>

definition iq_mod_placeholder ::
  "real \<Rightarrow> real \<Rightarrow> real \<Rightarrow> color \<Rightarrow> scene \<Rightarrow> error + (ref \<times> scene)" where
  "iq_mod_placeholder x y size' color s =
     (let (pts, s1) = new_list [(x, y), (x + size', y), (x + size', y + size'), (x, y + size')] s
      in case add_polygon pts color s1 of
           Inl e \<Rightarrow> Inl e
         | Inr s2 \<Rightarrow> Inr (pts, s2))"

definition detector_placeholder ::
  "real \<Rightarrow> real \<Rightarrow> real \<Rightarrow> color \<Rightarrow> scene \<Rightarrow> error + (ref \<times> scene)" where
  "detector_placeholder x y size' color s =
     (let (pts, s1) = new_list [(x, y), (x + size', y), (x + size', y + size'), (x, y + size')] s
      in case add_polygon pts color s1 of
           Inl e \<Rightarrow> Inl e
         | Inr s2 \<Rightarrow> Inr (pts, s2))"

subsection \<open>The eight-channel layout\<close>

text \<open>
  \<^verbatim>\<open>
  for i in range(8):
      y = i*15.0 - 52.5
      hue = i*45.0
      rgb = hsl_to_rgb(hue)
      ring_resonator_placeholder(bus_x_start + 50 + i*20, y, radius=10.0, color=rgb)
      waveguide_path(bus_x_start+20, y, bus_x_start+80, y)
      waveguide_path(bus_x_start+80, y, bus_x_start+80, y+10, color=rgb)
      waveguide_path(bus_x_start+80, y+10, bus_x_start-20, y, color=rgb)
      iq_mod_placeholder(bus_x_start-50, y-mod_size/2, color=rgb)
      detector_placeholder(core_x+core_size+50, y-mod_size/2, color=rgb)
  waveguide_path(0,0,core_x+core_size+100,0,color=(0.6,0.6,0.6))
  \<close>
  The default arguments are written out: width 0.45 of the ring, \<^verbatim>\<open>wg_width\<close> and the grey
  (0.7, 0.7, 0.7) of a waveguide, size 25.0 of the two squares, saturation and lightness 70.
\<close>

definition channel_y :: "nat \<Rightarrow> real" where
  "channel_y i = real i * 15 - 52.5"

definition channel_hue :: "nat \<Rightarrow> real" where
  "channel_hue i = real i * 45"

definition channel :: "nat \<Rightarrow> scene \<Rightarrow> error + scene" where
  "channel i s =
     (let y = channel_y i;
          hue = channel_hue i;
          rgb = hsl_to_rgb hue 70 70
      in bind_err (ring_resonator_placeholder (bus_x_start + 50 + real i * 20) y 10 0.45 rgb s)
           (\<lambda>(_, s1).
         bind_err (waveguide_path (bus_x_start + 20) y (bus_x_start + 80) y
                     wg_width waveguide_default_color s1)
           (\<lambda>(_, s2).
         bind_err (waveguide_path (bus_x_start + 80) y (bus_x_start + 80) (y + 10) wg_width rgb s2)
           (\<lambda>(_, s3).
         bind_err (waveguide_path (bus_x_start + 80) (y + 10) (bus_x_start - 20) y wg_width rgb s3)
           (\<lambda>(_, s4).
         bind_err (iq_mod_placeholder (bus_x_start - 50) (y - mod_size / 2) 25 rgb s4)
           (\<lambda>(_, s5).
         bind_err (detector_placeholder (core_x + core_size + 50) (y - mod_size / 2) 25 rgb s5)
           (\<lambda>(_, s6). Inr s6)))))))"

fun channels :: "nat list \<Rightarrow> scene \<Rightarrow> error + scene" where
  "channels [] s = Inr s"
| "channels (i # is) s = bind_err (channel i s) (channels is)"

definition generate_layout :: "scene \<Rightarrow> error + scene" where
  "generate_layout s =
     bind_err (channels [0 ..< 8] s)
       (\<lambda>s1. bind_err (waveguide_path 0 0 (core_x + core_size + 100) 0 wg_width (0.6, 0.6, 0.6) s1)
          (\<lambda>(_, s2). Inr s2))"

subsection \<open>The phase ramp\<close>

text \<open>
  \<^verbatim>\<open>
  t = np.linspace(0,8,500)
  phase = 0.98 + (0.995-0.98)*np.sin(2*math.pi*t/8)
  \<close>
  \<^verbatim>\<open>np.linspace(start, stop, num)\<close> is \<^verbatim>\<open>start + k * ((stop - start) / (num - 1))\<close>
  for \<^verbatim>\<open>k\<close> from 0 to \<^verbatim>\<open>num - 1\<close>.
\<close>

definition linspace :: "real \<Rightarrow> real \<Rightarrow> nat \<Rightarrow> real list" where
  "linspace start stop num =
     map (\<lambda>k. start + real k * ((stop - start) / real (num - 1))) [0 ..< num]"

definition t_samples :: "real list" where
  "t_samples = linspace 0 8 500"

definition phase_at :: "real \<Rightarrow> real" where
  "phase_at t = 0.98 + (0.995 - 0.98) * sin (2 * pi * t / 8)"

definition phase :: "real list" where
  "phase = map phase_at t_samples"

subsection \<open>The self-test\<close>

text \<open>
  \<^verbatim>\<open>
  expected_poly = 8*4
  assert len(all_polygons) >= expected_poly, f"Low polygon count: {len(all_polygons)} < {expected_poly}"
  print(f"Self-test passed: {len(all_polygons)} polygons generated")
  print(f"All files generated in {OUTDIR}/")
  \<close>
  The result is the list of printed lines. Between the layout and the self-test the script
  writes the metadata document and the two plots; writing files is outside the model.
\<close>

fun str_nat :: "nat \<Rightarrow> string" where
  "str_nat n =
     (if n < 10 then [char_of (48 + n)]
      else str_nat (n div 10) @ [char_of (48 + n mod 10)])"

declare str_nat.simps [simp del]

definition OUTDIR :: string where
  "OUTDIR = ''generated''"

definition expected_poly :: nat where
  "expected_poly = 8 * 4"

definition self_test :: "scene \<Rightarrow> error + string list" where
  "self_test s =
     (let n = length (all_polygons s)
      in if n \<ge> expected_poly
         then Inr [''Self-test passed: '' @ str_nat n @ '' polygons generated'',
                   ''All files generated in '' @ OUTDIR @ ''/'']
         else Inl (AssertionError
                     (''Low polygon count: '' @ str_nat n @ '' < '' @ str_nat expected_poly)))"

definition script :: "error + string list" where
  "script = bind_err (generate_layout initial_scene) self_test"

section \<open>The binary record writer \<^verbatim>\<open>GDSWriter\<close>\<close>

subsection \<open>Python floats as binary64 bit patterns\<close>

text \<open>
  A Python float is an IEEE 754 binary64 value: one sign bit, eleven bits of biased
  exponent, 52 bits of fraction. The model is the 64-bit pattern itself, which is also what
  \<^verbatim>\<open>struct.pack(">d", x)\<close> writes. A finite value has the magnitude
  \<open>f_mant w * 2 ^ f_pow w\<close>.
\<close>

type_synonym float64 = "64 word"
type_synonym byte = "8 word"

definition f_sign :: "float64 \<Rightarrow> bool" where
  "f_sign w = bit w 63"

definition f_exp :: "float64 \<Rightarrow> int" where
  "f_exp w = uint (take_bit 11 (drop_bit 52 w))"

definition f_frac :: "float64 \<Rightarrow> int" where
  "f_frac w = uint (take_bit 52 w)"

definition f_mant :: "float64 \<Rightarrow> int" where
  "f_mant w = (if f_exp w = 0 then f_frac w else 2 ^ 52 + f_frac w)"

definition f_pow :: "float64 \<Rightarrow> int" where
  "f_pow w = (if f_exp w = 0 then - 1074 else f_exp w - 1075)"

definition is_nan :: "float64 \<Rightarrow> bool" where
  "is_nan w = (f_exp w = 2047 \<and> f_frac w \<noteq> 0)"

definition is_inf :: "float64 \<Rightarrow> bool" where
  "is_inf w = (f_exp w = 2047 \<and> f_frac w = 0)"

definition is_zero :: "float64 \<Rightarrow> bool" where
  "is_zero w = (f_exp w = 0 \<and> f_frac w = 0)"

definition float_sign_bit :: "bool \<Rightarrow> float64" where
  "float_sign_bit sg = (if sg then push_bit 63 1 else 0)"

definition float_inf :: "bool \<Rightarrow> float64" where
  "float_inf sg = float_sign_bit sg OR push_bit 52 2047"

definition float_nan :: float64 where
  "float_nan = 0x7FF8000000000000"

text \<open>The number of binary digits of a positive integer.\<close>

function bitlen :: "int \<Rightarrow> int" where
  "bitlen n = (if n \<le> 0 then 0 else 1 + bitlen (n div 2))"
  by pat_completeness auto
termination
  by (relation "measure nat") auto

declare bitlen.simps [simp del]

text \<open>For positive \<open>p\<close> and \<open>q\<close>, the integer \<open>k\<close> with \<open>2 ^ k \<le> p / q < 2 ^ (k + 1)\<close>.\<close>

definition ilog2_ratio :: "int \<Rightarrow> int \<Rightarrow> int" where
  "ilog2_ratio p q =
     (let d = bitlen p - bitlen q
      in if (if d \<ge> 0 then p \<ge> q * 2 ^ nat d else p * 2 ^ nat (- d) \<ge> q) then d else d - 1)"

text \<open>The integer nearest to \<open>p / q\<close>, a tie going to the even neighbour.\<close>

definition round_half_even :: "int \<Rightarrow> int \<Rightarrow> int" where
  "round_half_even p q =
     (let m = p div q; r = p mod q
      in if 2 * r < q then m
         else if 2 * r > q then m + 1
         else if even m then m else m + 1)"

text \<open>
  Rounding to nearest, ties to even, of the rational \<open>p / q\<close> with \<open>p \<ge> 0\<close> and \<open>q > 0\<close>,
  with the sign \<open>sg\<close>: the quotient is scaled to 53 significant bits (fewer in the subnormal
  range), rounded to an integer \<open>m\<close>, and stored. Exponent field and fraction together are
  the number \<open>(e + 1074) * 2 ^ 52 + m\<close>, also when \<open>m\<close> was rounded up to \<open>2 ^ 53\<close>; a
  result beyond the largest finite value is infinity.
\<close>

definition float_of_ratio :: "bool \<Rightarrow> int \<Rightarrow> int \<Rightarrow> float64" where
  "float_of_ratio sg p q =
     (if p = 0 then float_sign_bit sg
      else
        let e = max (ilog2_ratio p q - 52) (- 1074);
            m = (if e < 0 then round_half_even (p * 2 ^ nat (- e)) q
                 else round_half_even p (q * 2 ^ nat e));
            bits = (e + 1074) * 2 ^ 52 + m
        in if bits \<ge> 2047 * 2 ^ 52 then float_inf sg
           else float_sign_bit sg OR word_of_int bits)"

text \<open>
  A decimal literal \<^verbatim>\<open>m\<close>e\<^verbatim>\<open>k\<close> of the source denotes the binary64 value nearest to
  \<open>m * 10 ^ k\<close>: \<^verbatim>\<open>1e-6\<close> is \<open>float_of_decimal 1 (- 6)\<close>, \<^verbatim>\<open>1.0\<close> is
  \<open>float_of_decimal 1 0\<close>.
\<close>

definition float_of_decimal :: "int \<Rightarrow> int \<Rightarrow> float64" where
  "float_of_decimal m k =
     (if k \<ge> 0 then float_of_ratio False (m * 10 ^ nat k) 1
      else float_of_ratio False m (10 ^ nat (- k)))"

text \<open>
  \<^verbatim>\<open>x / y\<close> on floats: Python raises ZeroDivisionError when \<^verbatim>\<open>y\<close> is zero, and
  otherwise returns the IEEE quotient, the exact quotient rounded. The payload of a NaN
  result is not modelled.
\<close>

definition py_truediv :: "float64 \<Rightarrow> float64 \<Rightarrow> error + float64" where
  "py_truediv x y =
     (let sg = (f_sign x \<noteq> f_sign y)
      in if is_zero y then Inl ZeroDivisionError
         else if is_nan x \<or> is_nan y then Inr float_nan
         else if is_inf x then (if is_inf y then Inr float_nan else Inr (float_inf sg))
         else if is_inf y then Inr (float_sign_bit sg)
         else Inr (float_of_ratio sg (f_mant x * 2 ^ nat (f_pow x - f_pow y))
                                     (f_mant y * 2 ^ nat (f_pow y - f_pow x))))"

text \<open>
  \<^verbatim>\<open>int(x)\<close> on a float truncates towards zero; it raises ValueError on a NaN and
  OverflowError on an infinity.
\<close>

definition py_int :: "float64 \<Rightarrow> error + int" where
  "py_int x =
     (if is_nan x then Inl ValueError
      else if is_inf x then Inl OverflowError
      else
        let a = (if f_pow x \<ge> 0 then f_mant x * 2 ^ nat (f_pow x)
                 else f_mant x div 2 ^ nat (- f_pow x))
        in Inr (if f_sign x then - a else a))"

text \<open>\<^verbatim>\<open>-x\<close> on a float flips the sign bit.\<close>

definition py_neg :: "float64 \<Rightarrow> float64" where
  "py_neg x = x XOR push_bit 63 1"

subsection \<open>\<^verbatim>\<open>struct.pack\<close>, big-endian\<close>

text \<open>
  \<^verbatim>\<open>struct.pack\<close> raises \<^verbatim>\<open>struct.error\<close> when an integer does not fit its format:
  \<^verbatim>\<open>B\<close> is an unsigned byte, \<^verbatim>\<open>H\<close> an unsigned 16-bit integer, \<^verbatim>\<open>i\<close> a signed 32-bit
  integer in two's complement. \<^verbatim>\<open>d\<close> writes the eight bytes of a float.
\<close>

definition pack_B :: "int \<Rightarrow> error + byte list" where
  "pack_B v = (if 0 \<le> v \<and> v < 2 ^ 8 then Inr [word_of_int v] else Inl StructError)"

definition pack_H :: "int \<Rightarrow> error + byte list" where
  "pack_H v =
     (if 0 \<le> v \<and> v < 2 ^ 16
      then Inr [word_of_int (v div 2 ^ 8), word_of_int v]
      else Inl StructError)"

definition pack_i :: "int \<Rightarrow> error + byte list" where
  "pack_i v =
     (if - (2 ^ 31) \<le> v \<and> v < 2 ^ 31
      then Inr [word_of_int (v div 2 ^ 24), word_of_int (v div 2 ^ 16),
                word_of_int (v div 2 ^ 8), word_of_int v]
      else Inl StructError)"

definition pack_d :: "float64 \<Rightarrow> byte list" where
  "pack_d w = map (\<lambda>k. ucast (drop_bit (8 * k) w)) [7, 6, 5, 4, 3, 2, 1, 0]"

text \<open>A format with a repeated code packs the values one after the other.\<close>

fun pack_all :: "('a \<Rightarrow> error + byte list) \<Rightarrow> 'a list \<Rightarrow> error + byte list" where
  "pack_all f [] = Inr []"
| "pack_all f (v # vs) =
     bind_err (f v) (\<lambda>b. bind_err (pack_all f vs) (\<lambda>bs. Inr (b @ bs)))"

subsection \<open>The writer\<close>

text \<open>
  \<^verbatim>\<open>
  class GDSWriter:
      def __init__(self, filename):
          self.filename = filename
          self.file = open(filename, "wb")
          self.unit = 1e-6
          self.precision = 1e-9
  \<close>
  The file is the list of the bytes written so far; opening with \<^verbatim>\<open>"wb"\<close> starts from the
  empty file. Failures of the file system are outside the model. Writing to a file that has
  been closed raises ValueError. When a method raises, the result is the exception alone:
  the bytes written before it are not kept in the result.
\<close>

record GDSWriter =
  filename :: string
  file' :: "byte list"
  file_closed :: bool
  unit :: float64
  precision :: float64

definition GDSWriter_init :: "string \<Rightarrow> GDSWriter" where
  "GDSWriter_init fname =
     \<lparr>filename = fname, file' = [], file_closed = False,
      unit = float_of_decimal 1 (- 6), precision = float_of_decimal 1 (- 9)\<rparr>"

definition file_write :: "byte list \<Rightarrow> GDSWriter \<Rightarrow> error + GDSWriter" where
  "file_write bs w =
     (if file_closed w then Inl ValueError else Inr (w\<lparr>file' := file' w @ bs\<rparr>))"

text \<open>
  \<^verbatim>\<open>
      def write_record(self, rectype, datatype, data=b''):
          length = 4 + len(data)
          self.file.write(struct.pack(">H", length))
          self.file.write(struct.pack(">BB", rectype, datatype))
          self.file.write(data)
  \<close>
\<close>

definition write_record :: "int \<Rightarrow> int \<Rightarrow> byte list \<Rightarrow> GDSWriter \<Rightarrow> error + GDSWriter" where
  "write_record rectype datatype' data w =
     (let length = 4 + int (length data)
      in bind_err (pack_H length) (\<lambda>b1.
         bind_err (file_write b1 w) (\<lambda>w1.
         bind_err (pack_all pack_B [rectype, datatype']) (\<lambda>b2.
         bind_err (file_write b2 w1) (\<lambda>w2.
         file_write data w2)))))"

text \<open>
  \<^verbatim>\<open>
      def write_header(self):
          self.write_record(0x00, 0x02, struct.pack(">H", 600))
          now = datetime.datetime.now()
          time_data = struct.pack(">12H",
              now.year, now.month, now.day, now.hour, now.minute, now.second,
              now.year, now.month, now.day, now.hour, now.minute, now.second)
          self.write_record(0x01, 0x02, time_data)
          self.write_record(0x02, 0x06, b"RPC_INTERFACE\x00")
          units_data = struct.pack(">dd", self.precision, self.unit)
          self.write_record(0x03, 0x05, units_data)
  \<close>
  The clock is a parameter: \<open>now\<close> is what \<^verbatim>\<open>datetime.datetime.now()\<close> returns.
\<close>

record datetime =
  year :: int
  month :: int
  day :: int
  hour :: int
  minute :: int
  second :: int

text \<open>The ranges that the class \<^verbatim>\<open>datetime\<close> keeps its fields in.\<close>

definition valid_datetime :: "datetime \<Rightarrow> bool" where
  "valid_datetime d =
     (1 \<le> year d \<and> year d \<le> 9999 \<and> 1 \<le> month d \<and> month d \<le> 12 \<and>
      1 \<le> day d \<and> day d \<le> 31 \<and> 0 \<le> hour d \<and> hour d \<le> 23 \<and>
      0 \<le> minute d \<and> minute d \<le> 59 \<and> 0 \<le> second d \<and> second d \<le> 59)"

definition ascii_bytes :: "string \<Rightarrow> byte list" where
  "ascii_bytes cs = map of_char cs"

definition write_header :: "datetime \<Rightarrow> GDSWriter \<Rightarrow> error + GDSWriter" where
  "write_header now w =
     bind_err (pack_H 600) (\<lambda>version.
     bind_err (write_record 0x00 0x02 version w) (\<lambda>w1.
     bind_err (pack_all pack_H
                 [year now, month now, day now, hour now, minute now, second now,
                  year now, month now, day now, hour now, minute now, second now]) (\<lambda>time_data.
     bind_err (write_record 0x01 0x02 time_data w1) (\<lambda>w2.
     bind_err (write_record 0x02 0x06 (ascii_bytes ''RPC_INTERFACE'' @ [0]) w2) (\<lambda>w3.
     let units_data = pack_d (precision w3) @ pack_d (unit w3)
     in write_record 0x03 0x05 units_data w3)))))"

text \<open>
  \<^verbatim>\<open>
      def write_boundary(self, layer, datatype, points):
          self.write_record(0x08, 0x00, b"")
          self.write_record(0x0D, 0x02, struct.pack(">H", layer))
          self.write_record(0x0E, 0x02, struct.pack(">H", datatype))
          coords = []
          for x, y in points:
              coords.extend([int(x / self.unit), int(y / self.unit)])
          xy_data = struct.pack(">" + "i"*len(coords), *coords)
          self.write_record(0x10, 0x03, xy_data)
          self.write_record(0x11, 0x00, b"")
  \<close>
  The points are pairs of floats.
\<close>

fun boundary_coords :: "float64 \<Rightarrow> (float64 \<times> float64) list \<Rightarrow> error + int list" where
  "boundary_coords u [] = Inr []"
| "boundary_coords u ((x, y) # points) =
     bind_err (py_truediv x u) (\<lambda>qx.
     bind_err (py_int qx) (\<lambda>cx.
     bind_err (py_truediv y u) (\<lambda>qy.
     bind_err (py_int qy) (\<lambda>cy.
     bind_err (boundary_coords u points) (\<lambda>coords.
     Inr (cx # cy # coords))))))"

definition write_boundary ::
  "int \<Rightarrow> int \<Rightarrow> (float64 \<times> float64) list \<Rightarrow> GDSWriter \<Rightarrow> error + GDSWriter" where
  "write_boundary layer datatype' points w =
     bind_err (write_record 0x08 0x00 [] w) (\<lambda>w1.
     bind_err (pack_H layer) (\<lambda>l.
     bind_err (write_record 0x0D 0x02 l w1) (\<lambda>w2.
     bind_err (pack_H datatype') (\<lambda>d.
     bind_err (write_record 0x0E 0x02 d w2) (\<lambda>w3.
     bind_err (boundary_coords (unit w3) points) (\<lambda>coords.
     bind_err (pack_all pack_i coords) (\<lambda>xy_data.
     bind_err (write_record 0x10 0x03 xy_data w3) (\<lambda>w4.
     write_record 0x11 0x00 [] w4))))))))"

text \<open>
  \<^verbatim>\<open>
      def end_structure(self):
          self.write_record(0x07, 0x00, b"")

      def close(self):
          self.write_record(0x04, 0x00, b"")
          self.file.close()
  \<close>
\<close>

definition end_structure :: "GDSWriter \<Rightarrow> error + GDSWriter" where
  "end_structure w = write_record 0x07 0x00 [] w"

definition close :: "GDSWriter \<Rightarrow> error + GDSWriter" where
  "close w = bind_err (write_record 0x04 0x00 [] w) (\<lambda>w1. Inr (w1\<lparr>file_closed := True\<rparr>))"

text \<open>The bytes of one record: length, the two tags, the payload.\<close>

definition record_bytes :: "int \<Rightarrow> int \<Rightarrow> byte list \<Rightarrow> byte list" where
  "record_bytes rectype datatype' data =
     [word_of_int ((4 + int (length data)) div 2 ^ 8), word_of_int (4 + int (length data)),
      word_of_int rectype, word_of_int datatype'] @ data"

section \<open>Properties of the geometry helpers\<close>

lemma hypot_eq_0_iff: "hypot dx dy = 0 \<longleftrightarrow> dx = 0 \<and> dy = 0"
proof -
  have "dx * dx + dy * dy = 0 \<longleftrightarrow> dx = 0 \<and> dy = 0"
    using sum_power2_eq_zero_iff [of dx dy] by (simp add: power2_eq_square)
  then show ?thesis
    by (simp add: hypot_def)
qed

text \<open>
  C7. A waveguide strip whose two endpoints coincide produces no polygon: the call
  returns nothing (\<open>None\<close>), raises nothing, and leaves the scene, and with it the shared
  polygon list, exactly as it was, whatever the width and the colour.
\<close>

theorem waveguide_path_coincident_noop:
  "waveguide_path x0 y0 x0 y0 width color s = Inr (None, s)"
  by (simp add: waveguide_path_def hypot_def)

subsection \<open>Registration\<close>

lemma add_polygon_cases:
  "add_polygon r c s =
     (if heap s r = [] then Inl IndexError
      else if hd (heap s r) \<noteq> last (heap s r)
           then Inr (s\<lparr>heap := (heap s)(r := heap s r @ [hd (heap s r)]),
                       all_polygons := all_polygons s @ [(r, c)]\<rparr>)
           else Inr (s\<lparr>all_polygons := all_polygons s @ [(r, c)]\<rparr>))"
  by (cases "heap s r") (simp_all add: add_polygon_def Let_def)

lemma add_polygon_Inr:
  assumes "add_polygon r c s = Inr s'"
  shows "all_polygons s' = all_polygons s @ [(r, c)]"
    and "next_ref s' = next_ref s"
    and "heap s' r = (if hd (heap s r) \<noteq> last (heap s r) then heap s r @ [hd (heap s r)]
                      else heap s r)"
    and "is_closed (heap s' r)"
    and "q \<noteq> r \<Longrightarrow> heap s' q = heap s q"
    and "is_closed (heap s q) \<Longrightarrow> heap s' q = heap s q"
  using assms
  by (auto simp: add_polygon_cases is_closed_def split: if_splits)

lemma add_polygon_nonempty: "heap s r \<noteq> [] \<Longrightarrow> \<exists>s'. add_polygon r c s = Inr s'"
  by (simp add: add_polygon_cases)

lemma add_polygon_all_closed:
  assumes "all_closed s" and "add_polygon r c s = Inr s'"
  shows "all_closed s'"
proof -
  have "is_closed (heap s' q)" if "(q, d) \<in> set (all_polygons s)" for q d
  proof -
    from that assms(1) have "is_closed (heap s q)"
      by (auto simp: all_closed_def list_all_iff)
    with add_polygon_Inr(6) [OF assms(2)] show ?thesis by simp
  qed
  with add_polygon_Inr(1,4) [OF assms(2)] show ?thesis
    by (auto simp: all_closed_def list_all_iff)
qed

lemma reachable_invariant:
  assumes "reachable s"
  shows "all_closed s \<and> (\<forall>(r, c) \<in> set (all_polygons s). r < next_ref s)"
  using assms
proof (induction rule: reachable.induct)
  case initial
  show ?case by (simp add: initial_scene_def all_closed_def)
next
  case (created s pts)
  then show ?case
    by (fastforce simp: new_list_def all_closed_def list_all_iff)
next
  case (registered s r c s')
  then show ?case
    using add_polygon_all_closed [of s r c s'] add_polygon_Inr(1,2) [of r c s s']
    by auto
qed

lemma register_new:
  assumes "pts \<noteq> []"
  shows "\<exists>s'. add_polygon (next_ref s) c (snd (new_list pts s)) = Inr s'
           \<and> all_polygons s' = all_polygons s @ [(next_ref s, c)]
           \<and> next_ref s' = Suc (next_ref s)
           \<and> heap s' (next_ref s) = (if hd pts \<noteq> last pts then pts @ [hd pts] else pts)
           \<and> (reachable s \<longrightarrow> reachable s')"
proof -
  let ?s1 = "snd (new_list pts s)"
  have h: "heap ?s1 (next_ref s) = pts" and n: "next_ref ?s1 = Suc (next_ref s)"
    and p: "all_polygons ?s1 = all_polygons s"
    by (simp_all add: new_list_def)
  obtain s' where a: "add_polygon (next_ref s) c ?s1 = Inr s'"
    using add_polygon_nonempty [of ?s1 "next_ref s" c] assms h by auto
  have "reachable s \<longrightarrow> reachable s'"
    using reachable.created [of s pts] reachable.registered [of ?s1 "next_ref s" c s'] a n
    by auto
  with add_polygon_Inr(1,2,3) [OF a] a h n p show ?thesis
    by auto
qed

lemma waveguide_path_registers:
  assumes "x0 \<noteq> x1 \<or> y0 \<noteq> y1"
  shows "\<exists>s'. waveguide_path x0 y0 x1 y1 w c s = Inr (Some (next_ref s), s')
           \<and> all_polygons s' = all_polygons s @ [(next_ref s, c)]
           \<and> next_ref s' = Suc (next_ref s)
           \<and> (reachable s \<longrightarrow> reachable s')"
proof -
  have nz: "hypot (x1 - x0) (y1 - y0) \<noteq> 0"
    using assms by (auto simp: hypot_eq_0_iff)
  define pts where "pts = [(x0 + - ((y1 - y0) / hypot (x1 - x0) (y1 - y0)) * (w / 2),
                            y0 + (x1 - x0) / hypot (x1 - x0) (y1 - y0) * (w / 2)),
                           (x1 + - ((y1 - y0) / hypot (x1 - x0) (y1 - y0)) * (w / 2),
                            y1 + (x1 - x0) / hypot (x1 - x0) (y1 - y0) * (w / 2)),
                           (x1 - - ((y1 - y0) / hypot (x1 - x0) (y1 - y0)) * (w / 2),
                            y1 - (x1 - x0) / hypot (x1 - x0) (y1 - y0) * (w / 2)),
                           (x0 - - ((y1 - y0) / hypot (x1 - x0) (y1 - y0)) * (w / 2),
                            y0 - (x1 - x0) / hypot (x1 - x0) (y1 - y0) * (w / 2))]"
  have ne: "pts \<noteq> []" by (simp add: pts_def)
  have w: "waveguide_path x0 y0 x1 y1 w c s =
      (case add_polygon (next_ref s) c (snd (new_list pts s)) of
         Inl e \<Rightarrow> Inl e | Inr s2 \<Rightarrow> Inr (Some (next_ref s), s2))"
    unfolding waveguide_path_def Let_def pts_def using nz
    by (simp add: new_list_def)
  from register_new [OF ne, of s c] show ?thesis
    unfolding w by auto
qed


subsection \<open>What each helper registers\<close>

lemma ring_registers:
  "\<exists>s'. ring_resonator_placeholder xc yc radius width c s = Inr (next_ref s, s')
      \<and> all_polygons s' = all_polygons s @ [(next_ref s, c), (Suc (next_ref s), (1, 1, 1))]
      \<and> next_ref s' = Suc (Suc (next_ref s))
      \<and> (reachable s \<longrightarrow> reachable s')"
proof -
  define outer where "outer =
    map (\<lambda>i. (xc + (radius + width / 2) * cos (2 * pi * real i / real (64::nat)),
               yc + (radius + width / 2) * sin (2 * pi * real i / real (64::nat))))
        [0 ..< 64 + 1]"
  define inner where "inner =
    map (\<lambda>i. (xc + (radius - width / 2) * cos (2 * pi * real i / real (64::nat)),
               yc + (radius - width / 2) * sin (2 * pi * real i / real (64::nat))))
        [0 ..< 64 + 1]"
  define s1 where "s1 = snd (new_list outer s)"
  define s2 where "s2 = snd (new_list inner s1)"
  have ne: "outer \<noteq> []" "inner \<noteq> []"
    by (simp_all add: outer_def inner_def)
  have h2: "heap s2 (next_ref s) = outer" "heap s2 (Suc (next_ref s)) = inner"
    and n2: "next_ref s2 = Suc (Suc (next_ref s))"
    and p2: "all_polygons s2 = all_polygons s"
    by (simp_all add: s2_def s1_def new_list_def)
  obtain s3 where a3: "add_polygon (next_ref s) c s2 = Inr s3"
    using add_polygon_nonempty [of s2 "next_ref s" c] ne h2 by auto
  note f3 = add_polygon_Inr(1,2,5) [OF a3]
  have "heap s3 (Suc (next_ref s)) = inner"
    using f3(3) [of "Suc (next_ref s)"] h2 by simp
  then obtain s4 where a4: "add_polygon (Suc (next_ref s)) (1, 1, 1) s3 = Inr s4"
    using add_polygon_nonempty [of s3 "Suc (next_ref s)" "(1, 1, 1)"] ne by auto
  note f4 = add_polygon_Inr(1,2) [OF a4]
  have "ring_resonator_placeholder xc yc radius width c s = Inr (next_ref s, s4)"
    unfolding ring_resonator_placeholder_def Let_def
    using a3 a4
    by (simp add: new_list_def s1_def s2_def outer_def inner_def)
  moreover have "reachable s \<longrightarrow> reachable s4"
  proof
    assume "reachable s"
    then have "reachable s2"
      unfolding s2_def s1_def by (intro reachable.created)
    then have "reachable s3"
      using reachable.registered [of s2 "next_ref s" c s3] a3 n2 by simp
    moreover have "next_ref s3 = Suc (Suc (next_ref s))"
      using f3(2) n2 by simp
    ultimately show "reachable s4"
      using reachable.registered [of s3 "Suc (next_ref s)" "(1, 1, 1)" s4] a4 by simp
  qed
  ultimately show ?thesis
    using f3 f4 n2 p2 by simp
qed

lemma square_registers:
  "\<exists>s'. iq_mod_placeholder x y sz c s = Inr (next_ref s, s')
      \<and> all_polygons s' = all_polygons s @ [(next_ref s, c)]
      \<and> next_ref s' = Suc (next_ref s)
      \<and> (reachable s \<longrightarrow> reachable s')"
  "\<exists>s'. detector_placeholder x y sz c s = Inr (next_ref s, s')
      \<and> all_polygons s' = all_polygons s @ [(next_ref s, c)]
      \<and> next_ref s' = Suc (next_ref s)
      \<and> (reachable s \<longrightarrow> reachable s')"
proof -
  have ne: "[(x, y), (x + sz, y), (x + sz, y + sz), (x, y + sz)] \<noteq> []" by simp
  have n: "fst (new_list pts s) = next_ref s" for pts
    by (simp add: new_list_def)
  show "\<exists>s'. iq_mod_placeholder x y sz c s = Inr (next_ref s, s')
      \<and> all_polygons s' = all_polygons s @ [(next_ref s, c)]
      \<and> next_ref s' = Suc (next_ref s)
      \<and> (reachable s \<longrightarrow> reachable s')"
    using register_new [OF ne, of s c]
    by (auto simp: iq_mod_placeholder_def Let_def split_beta n)
  show "\<exists>s'. detector_placeholder x y sz c s = Inr (next_ref s, s')
      \<and> all_polygons s' = all_polygons s @ [(next_ref s, c)]
      \<and> next_ref s' = Suc (next_ref s)
      \<and> (reachable s \<longrightarrow> reachable s')"
    using register_new [OF ne, of s c]
    by (auto simp: detector_placeholder_def Let_def split_beta n)
qed


lemma channel_registers:
  "\<exists>s'. channel i s = Inr s'
      \<and> all_polygons s' = all_polygons s @
            [(next_ref s, hsl_to_rgb (channel_hue i) 70 70),
             (next_ref s + 1, (1, 1, 1)),
             (next_ref s + 2, waveguide_default_color),
             (next_ref s + 3, hsl_to_rgb (channel_hue i) 70 70),
             (next_ref s + 4, hsl_to_rgb (channel_hue i) 70 70),
             (next_ref s + 5, hsl_to_rgb (channel_hue i) 70 70),
             (next_ref s + 6, hsl_to_rgb (channel_hue i) 70 70)]
      \<and> next_ref s' = next_ref s + 7
      \<and> (reachable s \<longrightarrow> reachable s')"
proof -
  define rgb where "rgb = hsl_to_rgb (channel_hue i) 70 70"
  define y where "y = channel_y i"
  obtain s1 where r1: "ring_resonator_placeholder (bus_x_start + 50 + real i * 20) y 10 0.45 rgb s
        = Inr (next_ref s, s1)"
    and p1: "all_polygons s1 = all_polygons s @ [(next_ref s, rgb), (Suc (next_ref s), (1, 1, 1))]"
    and n1: "next_ref s1 = Suc (Suc (next_ref s))"
    and t1: "reachable s \<longrightarrow> reachable s1"
    using ring_registers [of "bus_x_start + 50 + real i * 20" y 10 "0.45" rgb s] by blast
  obtain s2 where r2: "waveguide_path (bus_x_start + 20) y (bus_x_start + 80) y
        wg_width waveguide_default_color s1 = Inr (Some (next_ref s1), s2)"
    and p2: "all_polygons s2 = all_polygons s1 @ [(next_ref s1, waveguide_default_color)]"
    and n2: "next_ref s2 = Suc (next_ref s1)"
    and t2: "reachable s1 \<longrightarrow> reachable s2"
    using waveguide_path_registers [of "bus_x_start + 20" "bus_x_start + 80" y y wg_width
        waveguide_default_color s1] by auto
  obtain s3 where r3: "waveguide_path (bus_x_start + 80) y (bus_x_start + 80) (y + 10)
        wg_width rgb s2 = Inr (Some (next_ref s2), s3)"
    and p3: "all_polygons s3 = all_polygons s2 @ [(next_ref s2, rgb)]"
    and n3: "next_ref s3 = Suc (next_ref s2)"
    and t3: "reachable s2 \<longrightarrow> reachable s3"
    using waveguide_path_registers [of "bus_x_start + 80" "bus_x_start + 80" y "y + 10" wg_width
        rgb s2] by auto
  obtain s4 where r4: "waveguide_path (bus_x_start + 80) (y + 10) (bus_x_start - 20) y
        wg_width rgb s3 = Inr (Some (next_ref s3), s4)"
    and p4: "all_polygons s4 = all_polygons s3 @ [(next_ref s3, rgb)]"
    and n4: "next_ref s4 = Suc (next_ref s3)"
    and t4: "reachable s3 \<longrightarrow> reachable s4"
    using waveguide_path_registers [of "bus_x_start + 80" "bus_x_start - 20" "y + 10" y wg_width
        rgb s3] by auto
  obtain s5 where r5: "iq_mod_placeholder (bus_x_start - 50) (y - mod_size / 2) 25 rgb s4
        = Inr (next_ref s4, s5)"
    and p5: "all_polygons s5 = all_polygons s4 @ [(next_ref s4, rgb)]"
    and n5: "next_ref s5 = Suc (next_ref s4)"
    and t5: "reachable s4 \<longrightarrow> reachable s5"
    using square_registers(1) by blast
  obtain s6 where r6: "detector_placeholder (core_x + core_size + 50) (y - mod_size / 2) 25 rgb s5
        = Inr (next_ref s5, s6)"
    and p6: "all_polygons s6 = all_polygons s5 @ [(next_ref s5, rgb)]"
    and n6: "next_ref s6 = Suc (next_ref s5)"
    and t6: "reachable s5 \<longrightarrow> reachable s6"
    using square_registers(2) by blast
  have "channel i s = Inr s6"
    unfolding channel_def Let_def bind_err_def
    unfolding rgb_def [symmetric] y_def [symmetric]
    by (simp only: r1 r2 r3 r4 r5 r6 sum.case prod.case)
  moreover have "all_polygons s6 = all_polygons s @
            [(next_ref s, rgb), (next_ref s + 1, (1, 1, 1)),
             (next_ref s + 2, waveguide_default_color),
             (next_ref s + 3, rgb), (next_ref s + 4, rgb),
             (next_ref s + 5, rgb), (next_ref s + 6, rgb)]"
    by (simp add: p1 p2 p3 p4 p5 p6 n1 n2 n3 n4 n5)
  moreover have "next_ref s6 = next_ref s + 7"
    by (simp add: n1 n2 n3 n4 n5 n6)
  moreover have "reachable s \<longrightarrow> reachable s6"
    using t1 t2 t3 t4 t5 t6 by blast
  ultimately show ?thesis
    unfolding rgb_def by blast
qed

lemma channels_registers:
  "\<exists>s'. channels is s = Inr s'
      \<and> length (all_polygons s') = length (all_polygons s) + 7 * length is
      \<and> (reachable s \<longrightarrow> reachable s')"
proof (induction "is" arbitrary: s)
  case Nil
  then show ?case by simp
next
  case (Cons i "is")
  obtain s1 where c: "channel i s = Inr s1"
    and l: "length (all_polygons s1) = length (all_polygons s) + 7"
    and t: "reachable s \<longrightarrow> reachable s1"
    using channel_registers [of i s] by auto
  obtain s' where "channels is s1 = Inr s'"
    and "length (all_polygons s') = length (all_polygons s1) + 7 * length is"
    and "reachable s1 \<longrightarrow> reachable s'"
    using Cons.IH by blast
  then show ?case
    using t by (simp add: bind_err_def c l)
qed

lemma generate_layout_registers:
  "\<exists>s'. generate_layout s = Inr s'
     \<and> length (all_polygons s') = length (all_polygons s) + 57
     \<and> (reachable s \<longrightarrow> reachable s')"
proof -
  obtain s1 where c: "channels [0 ..< 8] s = Inr s1"
    and l: "length (all_polygons s1) = length (all_polygons s) + 7 * length [0 ..< 8::nat]"
    and t1: "reachable s \<longrightarrow> reachable s1"
    using channels_registers by blast
  obtain s2 where w: "waveguide_path 0 0 (core_x + core_size + 100) 0 wg_width (0.6, 0.6, 0.6) s1
       = Inr (Some (next_ref s1), s2)"
    and p: "all_polygons s2 = all_polygons s1 @ [(next_ref s1, (0.6, 0.6, 0.6))]"
    and t2: "reachable s1 \<longrightarrow> reachable s2"
    using waveguide_path_registers [of 0 "core_x + core_size + 100" 0 0 wg_width "(0.6, 0.6, 0.6)" s1]
    by (auto simp: core_x_def core_size_def)
  have "generate_layout s = Inr s2"
    unfolding generate_layout_def bind_err_def
    by (simp only: c w sum.case prod.case)
  moreover have "length (all_polygons s2) = length (all_polygons s) + 57"
    using l by (simp add: p)
  ultimately show ?thesis
    using t1 t2 by blast
qed

section \<open>The polygons of the scene are closed\<close>

text \<open>
  C9. Every polygon registered in the shared list is closed. In every scene that the
  script can reach, each registered list is non-empty and its first point equals its last
  point. A registration of an existing list that returns appends exactly one entry; the new
  entry's list is the old list with its first point duplicated at the end when first and
  last point differed, and the old list unchanged otherwise; its first point equals its
  last; and the scene after it is reachable again, with every entry closed, the earlier
  ones included, also when the list registered is one that was registered before.
\<close>

theorem registered_polygons_closed:
  assumes "reachable s"
  shows "all_closed s \<and>
         (\<forall>r c s'. r < next_ref s \<longrightarrow> add_polygon r c s = Inr s' \<longrightarrow>
            all_polygons s' = all_polygons s @ [(r, c)] \<and>
            heap s' r = (if hd (heap s r) \<noteq> last (heap s r) then heap s r @ [hd (heap s r)]
                         else heap s r) \<and>
            hd (heap s' r) = last (heap s' r) \<and>
            all_closed s' \<and> reachable s')"
proof -
  have "all_closed s"
    using reachable_invariant [OF assms] by simp
  moreover have "all_polygons s' = all_polygons s @ [(r, c)] \<and>
            heap s' r = (if hd (heap s r) \<noteq> last (heap s r) then heap s r @ [hd (heap s r)]
                         else heap s r) \<and>
            hd (heap s' r) = last (heap s' r) \<and>
            all_closed s' \<and> reachable s'"
    if "r < next_ref s" and a: "add_polygon r c s = Inr s'" for r c s'
  proof -
    have "reachable s'"
      using reachable.registered [OF assms that] .
    moreover have "all_closed s'"
      using reachable_invariant [OF \<open>reachable s'\<close>] by simp
    moreover have "hd (heap s' r) = last (heap s' r)"
      using add_polygon_Inr(4) [OF a] by (simp add: is_closed_def)
    ultimately show ?thesis
      using add_polygon_Inr(1,3) [OF a] by simp
  qed
  ultimately show ?thesis by blast
qed

text \<open>
  The theorem at two scenes: the one in which the open triangle (0,0), (1,0), (1,1) has
  been created, where registering it closes it, and the scene of the whole layout.
\<close>

theorem registered_polygons_closed_witness:
  "reachable (snd (new_list [(0, 0), (1, 0), (1, 1)] initial_scene)) \<and>
   (case add_polygon 0 (1, 1, 1) (snd (new_list [(0, 0), (1, 0), (1, 1)] initial_scene)) of
      Inl e \<Rightarrow> False
    | Inr s' \<Rightarrow> heap s' 0 = [(0, 0), (1, 0), (1, 1), (0, 0)] \<and> all_closed s'
                 \<and> all_polygons s' = [(0, (1, 1, 1))]) \<and>
   (\<exists>s. generate_layout initial_scene = Inr s \<and> reachable s \<and> all_closed s)"
proof -
  let ?s0 = "snd (new_list [(0, 0), (1, 0), (1, 1)] initial_scene)"
  have r0: "reachable ?s0"
    by (intro reachable.created reachable.initial)
  have n0: "0 < next_ref ?s0" and h0: "heap ?s0 0 = [(0, 0), (1, 0), (1, 1)]"
    and p0: "all_polygons ?s0 = []"
    by (simp_all add: new_list_def initial_scene_def)
  obtain s' where a: "add_polygon 0 (1, 1, 1) ?s0 = Inr s'"
    using add_polygon_nonempty [of ?s0 0 "(1, 1, 1)"] h0 by auto
  have "heap s' 0 = [(0, 0), (1, 0), (1, 1), (0, 0)] \<and> all_closed s'
          \<and> all_polygons s' = [(0, (1, 1, 1))]"
    using registered_polygons_closed [OF r0] n0 a by (simp add: h0 p0)
  moreover
  obtain s where g: "generate_layout initial_scene = Inr s"
    and "reachable initial_scene \<longrightarrow> reachable s"
    using generate_layout_registers by blast
  then have r: "reachable s"
    using reachable.initial by simp
  have "all_closed s"
    using registered_polygons_closed [OF r] by simp
  ultimately show ?thesis
    using r0 a g r by auto
qed

section \<open>The polygon count and the self-test\<close>

text \<open>
  C10. With the literal parameters of the script, the layout pass started from the empty
  list ends without an exception with exactly 57 registered polygons. Each channel adds
  seven to whatever scene it starts from: two ring boundaries, three waveguide strips, the
  modulator square and the detector square. Each of the three waveguide calls of a channel,
  and the call for the central bus, returns its point list, that is, none of them takes the
  branch for a segment of length zero.
\<close>

theorem layout_polygon_count:
  "(\<exists>s'. generate_layout initial_scene = Inr s' \<and> length (all_polygons s') = 57) \<and>
   (\<forall>i s. \<exists>s'. channel i s = Inr s' \<and>
      length (all_polygons s') = length (all_polygons s) + 7) \<and>
   (\<forall>i s. \<exists>r s'. waveguide_path (bus_x_start + 20) (channel_y i) (bus_x_start + 80) (channel_y i)
                      wg_width waveguide_default_color s = Inr (Some r, s')) \<and>
   (\<forall>i c s. \<exists>r s'. waveguide_path (bus_x_start + 80) (channel_y i) (bus_x_start + 80)
                      (channel_y i + 10) wg_width c s = Inr (Some r, s')) \<and>
   (\<forall>i c s. \<exists>r s'. waveguide_path (bus_x_start + 80) (channel_y i + 10) (bus_x_start - 20)
                      (channel_y i) wg_width c s = Inr (Some r, s')) \<and>
   (\<forall>s. \<exists>r s'. waveguide_path 0 0 (core_x + core_size + 100) 0 wg_width (0.6, 0.6, 0.6) s
                    = Inr (Some r, s'))"
proof -
  have l0: "length (all_polygons initial_scene) = 0"
    by (simp add: initial_scene_def)
  have "\<exists>s'. generate_layout initial_scene = Inr s' \<and> length (all_polygons s') = 57"
    using generate_layout_registers [of initial_scene] unfolding l0 by auto
  moreover have "\<exists>s'. channel i s = Inr s' \<and>
      length (all_polygons s') = length (all_polygons s) + 7" for i s
    using channel_registers [of i s] by auto
  moreover have "\<exists>r s'. waveguide_path (bus_x_start + 20) (channel_y i) (bus_x_start + 80)
      (channel_y i) wg_width waveguide_default_color s = Inr (Some r, s')" for i s
    using waveguide_path_registers [of "bus_x_start + 20" "bus_x_start + 80" "channel_y i"
        "channel_y i" wg_width waveguide_default_color s] by auto
  moreover have "\<exists>r s'. waveguide_path (bus_x_start + 80) (channel_y i) (bus_x_start + 80)
      (channel_y i + 10) wg_width c s = Inr (Some r, s')" for i c s
    using waveguide_path_registers [of "bus_x_start + 80" "bus_x_start + 80" "channel_y i"
        "channel_y i + 10" wg_width c s] by auto
  moreover have "\<exists>r s'. waveguide_path (bus_x_start + 80) (channel_y i + 10) (bus_x_start - 20)
      (channel_y i) wg_width c s = Inr (Some r, s')" for i c s
    using waveguide_path_registers [of "bus_x_start + 80" "bus_x_start - 20" "channel_y i + 10"
        "channel_y i" wg_width c s] by auto
  moreover have "\<exists>r s'. waveguide_path 0 0 (core_x + core_size + 100) 0 wg_width
      (0.6, 0.6, 0.6) s = Inr (Some r, s')" for s
    using waveguide_path_registers [of 0 "core_x + core_size + 100" 0 0 wg_width
        "(0.6, 0.6, 0.6)" s] by (auto simp: core_x_def core_size_def)
  ultimately show ?thesis by blast
qed

lemma str_nat_57: "str_nat 57 = ''57''"
  by code_simp

text \<open>
  C4. With the literal parameters, the scene after the layout pass holds at least
  \<open>expected_poly\<close> = 32 polygons, so the assertion of the self-test holds: the script
  prints the success message with the count and the completion notice, and does not end
  in an AssertionError.
\<close>

theorem self_test_passes:
  "(\<exists>s'. generate_layout initial_scene = Inr s' \<and> expected_poly \<le> length (all_polygons s')
      \<and> self_test s' = Inr [''Self-test passed: 57 polygons generated'',
                             ''All files generated in generated/'']) \<and>
   script = Inr [''Self-test passed: 57 polygons generated'',
                 ''All files generated in generated/''] \<and>
   (\<forall>msg. script \<noteq> Inl (AssertionError msg))"
proof -
  obtain s' where g: "generate_layout initial_scene = Inr s'"
    and l: "length (all_polygons s') = length (all_polygons initial_scene) + 57"
    using generate_layout_registers [of initial_scene] by blast
  have l57: "length (all_polygons s') = 57"
    using l by (simp add: initial_scene_def)
  have t: "self_test s' = Inr [''Self-test passed: 57 polygons generated'',
                               ''All files generated in generated/'']"
    by (simp add: self_test_def Let_def l57 expected_poly_def str_nat_57 OUTDIR_def)
  have s: "script = Inr [''Self-test passed: 57 polygons generated'',
                         ''All files generated in generated/'']"
    by (simp add: script_def bind_err_def g t)
  have "script \<noteq> Inl (AssertionError msg)" for msg
    unfolding s by simp
  moreover have "expected_poly \<le> length (all_polygons s')"
    by (simp add: expected_poly_def l57)
  ultimately show ?thesis
    using g t s by blast
qed

section \<open>The hues of the channels\<close>

lemma upt_8: "[0 ..< 8] = [0, 1, 2, 3, 4, 5, 6, 7::nat]"
  by (simp add: upt_rec)

lemma channel_hue_mod:
  assumes "i < 8"
  shows "channel_hue i = real ((i * 45) mod 360)"
proof -
  have "i * 45 < 360" using assms by simp
  then show ?thesis by (simp add: channel_hue_def)
qed

lemma channel_colours:
  "map (\<lambda>i. hsl_to_rgb (channel_hue i) 70 70) [0 ..< 8] =
     [(0.91, 0.49, 0.49), (0.91, 0.805, 0.49), (0.7, 0.91, 0.49), (0.49, 0.91, 0.595),
      (0.49, 0.91, 0.91), (0.49, 0.595, 0.91), (0.7, 0.49, 0.91), (0.91, 0.49, 0.805)]"
  by (simp add: upt_8 channel_hue_def hsl_to_rgb_def hue2rgb_def Let_def)

text \<open>
  C6. For every channel index \<open>i\<close> from 0 to 7, the hue \<^verbatim>\<open>i*45.0\<close> that the layout loop
  computes equals \<open>(i * 45) mod 360\<close>, and it is the hue of the colour with which the
  channel registers its ring, its two coloured waveguides and its two squares. The eight
  hues are 0, 45, 90, ..., 315: they are pairwise different, the hues of channel 0 and
  channel 7 differ by 315, and the eight colours obtained from them differ as well.
\<close>

theorem channel_hues:
  "(\<forall>i<8. channel_hue i = real ((i * 45) mod 360) \<and>
      (\<forall>s. \<exists>s'. channel i s = Inr s' \<and>
         map snd (drop (length (all_polygons s)) (all_polygons s')) =
           [hsl_to_rgb (real ((i * 45) mod 360)) 70 70, (1, 1, 1), waveguide_default_color,
            hsl_to_rgb (real ((i * 45) mod 360)) 70 70,
            hsl_to_rgb (real ((i * 45) mod 360)) 70 70,
            hsl_to_rgb (real ((i * 45) mod 360)) 70 70,
            hsl_to_rgb (real ((i * 45) mod 360)) 70 70])) \<and>
   map channel_hue [0 ..< 8] = [0, 45, 90, 135, 180, 225, 270, 315] \<and>
   distinct (map channel_hue [0 ..< 8]) \<and>
   channel_hue 7 - channel_hue 0 = 315 \<and>
   distinct (map (\<lambda>i. hsl_to_rgb (channel_hue i) 70 70) [0 ..< 8])"
proof -
  have a: "channel_hue i = real ((i * 45) mod 360) \<and>
      (\<forall>s. \<exists>s'. channel i s = Inr s' \<and>
         map snd (drop (length (all_polygons s)) (all_polygons s')) =
           [hsl_to_rgb (real ((i * 45) mod 360)) 70 70, (1, 1, 1), waveguide_default_color,
            hsl_to_rgb (real ((i * 45) mod 360)) 70 70,
            hsl_to_rgb (real ((i * 45) mod 360)) 70 70,
            hsl_to_rgb (real ((i * 45) mod 360)) 70 70,
            hsl_to_rgb (real ((i * 45) mod 360)) 70 70])" if "i < 8" for i
  proof -
    have h: "channel_hue i = real ((i * 45) mod 360)"
      using that by (rule channel_hue_mod)
    have "\<exists>s'. channel i s = Inr s' \<and>
         map snd (drop (length (all_polygons s)) (all_polygons s')) =
           [hsl_to_rgb (channel_hue i) 70 70, (1, 1, 1), waveguide_default_color,
            hsl_to_rgb (channel_hue i) 70 70, hsl_to_rgb (channel_hue i) 70 70,
            hsl_to_rgb (channel_hue i) 70 70, hsl_to_rgb (channel_hue i) 70 70]" for s
      using channel_registers [of i s] by auto
    then show ?thesis
      unfolding h by blast
  qed
  have b: "map channel_hue [0 ..< 8] = [0, 45, 90, 135, 180, 225, 270, 315]"
    by (simp add: upt_8 channel_hue_def)
  have c: "distinct (map channel_hue [0 ..< 8])"
    unfolding b by simp
  have d: "channel_hue 7 - channel_hue 0 = 315"
    by (simp add: channel_hue_def)
  have e: "distinct (map (\<lambda>i. hsl_to_rgb (channel_hue i) 70 70) [0 ..< 8])"
    unfolding channel_colours by simp
  show ?thesis
    using a b c d e by blast
qed

text \<open>Channel 7 in the empty scene.\<close>

theorem channel_hues_witness:
  "(7::nat) < 8 \<and> channel_hue 7 = real ((7 * 45) mod 360) \<and> channel_hue 7 = 315 \<and>
   (\<exists>s'. channel 7 initial_scene = Inr s' \<and>
      map snd (all_polygons s') =
        [hsl_to_rgb 315 70 70, (1, 1, 1), waveguide_default_color,
         hsl_to_rgb 315 70 70, hsl_to_rgb 315 70 70, hsl_to_rgb 315 70 70,
         hsl_to_rgb 315 70 70])"
proof -
  have l: "(7::nat) < 8" by simp
  have m: "real ((7 * 45) mod 360) = 315" by simp
  have p: "length (all_polygons initial_scene) = 0"
    by (simp add: initial_scene_def)
  from channel_hues have "channel_hue 7 = real ((7 * 45) mod 360) \<and>
      (\<forall>s. \<exists>s'. channel 7 s = Inr s' \<and>
         map snd (drop (length (all_polygons s)) (all_polygons s')) =
           [hsl_to_rgb (real ((7 * 45) mod 360)) 70 70, (1, 1, 1), waveguide_default_color,
            hsl_to_rgb (real ((7 * 45) mod 360)) 70 70,
            hsl_to_rgb (real ((7 * 45) mod 360)) 70 70,
            hsl_to_rgb (real ((7 * 45) mod 360)) 70 70,
            hsl_to_rgb (real ((7 * 45) mod 360)) 70 70])"
    using l by blast
  then have "channel_hue 7 = 315 \<and>
      (\<exists>s'. channel 7 initial_scene = Inr s' \<and>
         map snd (drop (length (all_polygons initial_scene)) (all_polygons s')) =
           [hsl_to_rgb 315 70 70, (1, 1, 1), waveguide_default_color,
            hsl_to_rgb 315 70 70, hsl_to_rgb 315 70 70, hsl_to_rgb 315 70 70,
            hsl_to_rgb 315 70 70])"
    unfolding m by blast
  then show ?thesis
    unfolding p by simp
qed

section \<open>The phase ramp\<close>

lemma phase_length: "length phase = 500"
  by (simp add: phase_def t_samples_def linspace_def)

lemma phase_range: "\<forall>v \<in> set phase. 0.965 \<le> v \<and> v \<le> 0.995"
proof
  fix v assume "v \<in> set phase"
  then obtain t where v: "v = phase_at t"
    by (auto simp: phase_def)
  have b: "0.965 \<le> 0.98 + (0.995 - 0.98) * x \<and> 0.98 + (0.995 - 0.98) * x \<le> 0.995"
    if "- 1 \<le> x" and "x \<le> 1" for x :: real
    using that by simp
  show "0.965 \<le> v \<and> v \<le> 0.995"
    unfolding v phase_at_def by (rule b) simp_all
qed

text \<open>
  C2. Not every sample of the curve lies between 0.98 and 0.995, the range that the
  metadata gives for the phase fidelity: the sine is negative on the second half of the
  period. There are 500 samples; sample 374 is \<open>t = 2992 / 499\<close>, and the curve there is
  below 0.98. (All samples lie between 0.965 and 0.995, see \<open>phase_range\<close>.)
\<close>

theorem phase_below_fidelity_range:
  "length phase = 500 \<and> t_samples ! 374 = 2992 / 499 \<and> phase ! 374 < 0.98"
proof -
  have t: "t_samples ! 374 = 2992 / 499"
    by (simp add: t_samples_def linspace_def)
  have "pi < 2 * pi * (374 / 499)" "2 * pi * (374 / 499) < 2 * pi"
    using pi_gt_zero by simp_all
  then have "sin (2 * pi * (374 / 499)) < 0"
    by (rule sin_lt_zero)
  moreover have "2 * pi * (2992 / 499) / 8 = 2 * pi * (374 / 499)"
    by simp
  ultimately have "phase_at (2992 / 499) < 0.98"
    unfolding phase_at_def by (simp add: mult_pos_neg)
  moreover have "phase ! 374 = phase_at (t_samples ! 374)"
    by (simp add: phase_def t_samples_def linspace_def)
  ultimately show ?thesis
    using t phase_length by simp
qed

section \<open>Properties of the binary writer\<close>

subsection \<open>Evaluating the float model\<close>

lemma bitlen_nonpos: "n \<le> 0 \<Longrightarrow> bitlen n = 0"
  by (simp add: bitlen.simps)

lemma bitlen_pos: "0 < n \<Longrightarrow> bitlen n = 1 + bitlen (n div 2)"
  by (simp add: bitlen.simps)

lemmas float_eval =
  float_of_decimal_def float_of_ratio_def ilog2_ratio_def round_half_even_def Let_def
  bitlen_nonpos bitlen_pos f_exp_def f_frac_def f_mant_def f_pow_def f_sign_def
  is_nan_def is_inf_def is_zero_def float_sign_bit_def float_inf_def

lemma float_1em6: "float_of_decimal 1 (- 6) = 0x3EB0C6F7A0B5ED8D"
  by (simp add: float_eval)

lemma float_1em9: "float_of_decimal 1 (- 9) = 0x3E112E0BE826D695"
  by (simp add: float_eval)

lemma float_1: "float_of_decimal 1 0 = 0x3FF0000000000000"
  by (simp add: float_eval)

lemma float_2: "float_of_decimal 2 0 = 0x4000000000000000"
  by (simp add: float_eval)

text \<open>
  The rounding agrees with the values that CPython gives: \<^verbatim>\<open>0.1\<close> is rounded up in the last
  place, and \<^verbatim>\<open>0.29/0.01\<close> is \<^verbatim>\<open>28.999999999999996\<close>, which \<^verbatim>\<open>int\<close> truncates to 28,
  not 29: the truncated quotient depends on the rounding.
\<close>

lemma float_0_1: "float_of_decimal 1 (- 1) = 0x3FB999999999999A"
  by (simp add: float_eval)

lemma div_029_001:
  "float_of_decimal 29 (- 2) = 0x3FD28F5C28F5C28F"
  "float_of_decimal 1 (- 2) = 0x3F847AE147AE147B"
  "py_truediv 0x3FD28F5C28F5C28F 0x3F847AE147AE147B = Inr 0x403CFFFFFFFFFFFF"
  "py_int 0x403CFFFFFFFFFFFF = Inr 28"
  by (simp_all add: py_truediv_def py_int_def float_eval)

lemma div_1_unit: "py_truediv 0x3FF0000000000000 0x3EB0C6F7A0B5ED8D = Inr 0x412E848000000000"
  by (simp add: py_truediv_def float_eval)

lemma div_2_unit: "py_truediv 0x4000000000000000 0x3EB0C6F7A0B5ED8D = Inr 0x413E848000000000"
  by (simp add: py_truediv_def float_eval)

lemma int_1e6: "py_int 0x412E848000000000 = Inr 1000000"
  by (simp add: py_int_def float_eval)

lemma int_2e6: "py_int 0x413E848000000000 = Inr 2000000"
  by (simp add: py_int_def float_eval)

lemma pack_H_ok: "0 \<le> v \<Longrightarrow> v < 65536 \<Longrightarrow> pack_H v = Inr [word_of_int (v div 2 ^ 8), word_of_int v]"
  by (simp add: pack_H_def)

lemma write_record_bytes:
  assumes "\<not> file_closed w" and "0 \<le> rt" "rt < 256" and "0 \<le> dt" "dt < 256"
    and "length data < 65532"
  shows "write_record rt dt data w = Inr (w\<lparr>file' := file' w @ record_bytes rt dt data\<rparr>)"
  using assms
  by (simp add: write_record_def Let_def pack_H_def pack_B_def bind_err_def file_write_def
      record_bytes_def)


lemma write_record_Inr:
  assumes "write_record rt dt data w = Inr w1"
  shows "w1 = w\<lparr>file' := file' w @ record_bytes rt dt data\<rparr> \<and> \<not> file_closed w"
  using assms
  by (auto simp: write_record_def Let_def pack_H_def pack_B_def bind_err_def file_write_def
      record_bytes_def split: if_splits)

lemma bind_err_Inr_iff:
  "bind_err m f = Inr y \<longleftrightarrow> (\<exists>x. m = Inr x \<and> f x = Inr y)"
  by (cases m) (simp_all add: bind_err_def)

lemma pack_all_append:
  "pack_all f (xs @ ys) =
     bind_err (pack_all f xs) (\<lambda>a. bind_err (pack_all f ys) (\<lambda>b. Inr (a @ b)))"
  by (induction xs) (auto simp: bind_err_def split: sum.splits)

lemma boundary_coords_append:
  "boundary_coords u (ps @ qs) =
     bind_err (boundary_coords u ps) (\<lambda>cs. bind_err (boundary_coords u qs) (\<lambda>ds. Inr (cs @ ds)))"
  by (induction ps) (auto simp: bind_err_def split: sum.splits)

lemma boundary_coords_length:
  "boundary_coords u ps = Inr cs \<Longrightarrow> length cs = 2 * length ps"
  by (induction ps arbitrary: cs) (auto simp: bind_err_Inr_iff)

lemma boundary_coords_1_2:
  "boundary_coords (float_of_decimal 1 (- 6)) [(float_of_decimal 1 0, float_of_decimal 2 0)]
     = Inr [1000000, 2000000]"
  by (simp add: float_1em6 float_1 float_2 div_1_unit div_2_unit int_1e6 int_2e6 bind_err_def)

lemma pack_i_pair:
  "pack_all pack_i [1000000, 2000000] = Inr [0x00, 0x0F, 0x42, 0x40, 0x00, 0x1E, 0x84, 0x80]"
  by (simp add: pack_i_def bind_err_def)

lemma pack_time_data:
  assumes "valid_datetime now"
  shows "pack_all pack_H
           [year now, month now, day now, hour now, minute now, second now,
            year now, month now, day now, hour now, minute now, second now]
         = Inr (concat (map (\<lambda>v. [word_of_int (v div 2 ^ 8), word_of_int v])
                  [year now, month now, day now, hour now, minute now, second now,
                   year now, month now, day now, hour now, minute now, second now]))"
  using assms by (simp add: valid_datetime_def pack_H_def bind_err_def)

lemma write_header_example:
  "write_header \<lparr>year = 2024, month = 1, day = 2, hour = 3, minute = 4, second = 5\<rparr>
     (GDSWriter_init ''layout.gds'')
   = Inr ((GDSWriter_init ''layout.gds'')\<lparr>file' :=
          [0x00, 0x06, 0x00, 0x02, 0x02, 0x58,
           0x00, 0x1C, 0x01, 0x02,
             0x07, 0xE8, 0x00, 0x01, 0x00, 0x02, 0x00, 0x03, 0x00, 0x04, 0x00, 0x05,
             0x07, 0xE8, 0x00, 0x01, 0x00, 0x02, 0x00, 0x03, 0x00, 0x04, 0x00, 0x05,
           0x00, 0x12, 0x02, 0x06,
             0x52, 0x50, 0x43, 0x5F, 0x49, 0x4E, 0x54, 0x45, 0x52, 0x46, 0x41, 0x43, 0x45, 0x00,
           0x00, 0x14, 0x03, 0x05,
             0x3E, 0x11, 0x2E, 0x0B, 0xE8, 0x26, 0xD6, 0x95,
             0x3E, 0xB0, 0xC6, 0xF7, 0xA0, 0xB5, 0xED, 0x8D]\<rparr>)"
  by (simp add: write_header_def bind_err_def pack_H_def write_record_bytes record_bytes_def
      ascii_bytes_def pack_d_def GDSWriter_init_def float_1em6 float_1em9)

lemma boundary_coords_around:
  assumes "u = float_of_decimal 1 (- 6)"
  shows "boundary_coords u (ps @ [(float_of_decimal 1 0, float_of_decimal 2 0)] @ qs) =
     bind_err (boundary_coords u ps) (\<lambda>cs.
     bind_err (boundary_coords u qs) (\<lambda>ds. Inr (cs @ [1000000, 2000000] @ ds)))"
proof -
  have "boundary_coords u ([(float_of_decimal 1 0, float_of_decimal 2 0)] @ qs) =
      bind_err (boundary_coords u qs) (\<lambda>ds. Inr ([1000000, 2000000] @ ds))"
    unfolding boundary_coords_append [of u "[(float_of_decimal 1 0, float_of_decimal 2 0)]" qs]
    unfolding assms boundary_coords_1_2
    by (simp add: bind_err_def split: sum.splits)
  then show ?thesis
    unfolding boundary_coords_append [of u ps]
    by (simp add: bind_err_def split: sum.splits)
qed

lemma boundary_coords_rule:
  "boundary_coords u ps = Inr cs \<longleftrightarrow>
     length cs = 2 * length ps \<and>
     (\<forall>j < length ps.
        bind_err (py_truediv (fst (ps ! j)) u) py_int = Inr (cs ! (2 * j)) \<and>
        bind_err (py_truediv (snd (ps ! j)) u) py_int = Inr (cs ! (2 * j + 1)))"
proof (induction ps arbitrary: cs)
  case Nil
  then show ?case by auto
next
  case (Cons p ps)
  obtain x y where p: "p = (x, y)" by (cases p)
  show ?case
  proof
    assume "boundary_coords u (p # ps) = Inr cs"
    then obtain cx cy cs' where cx: "bind_err (py_truediv x u) py_int = Inr cx"
      and cy: "bind_err (py_truediv y u) py_int = Inr cy"
      and r: "boundary_coords u ps = Inr cs'" and cs: "cs = cx # cy # cs'"
      unfolding p by (auto simp: bind_err_Inr_iff)
    from r Cons.IH [of cs'] have l: "length cs' = 2 * length ps"
      and a: "\<forall>j < length ps.
        bind_err (py_truediv (fst (ps ! j)) u) py_int = Inr (cs' ! (2 * j)) \<and>
        bind_err (py_truediv (snd (ps ! j)) u) py_int = Inr (cs' ! (2 * j + 1))"
      by simp_all
    have "bind_err (py_truediv (fst ((p # ps) ! j)) u) py_int = Inr (cs ! (2 * j)) \<and>
        bind_err (py_truediv (snd ((p # ps) ! j)) u) py_int = Inr (cs ! (2 * j + 1))"
      if "j < length (p # ps)" for j
    proof (cases j)
      case 0
      then show ?thesis by (simp add: p cs cx cy)
    next
      case (Suc k)
      with that a show ?thesis by (simp add: cs)
    qed
    then show "length cs = 2 * length (p # ps) \<and>
     (\<forall>j < length (p # ps).
        bind_err (py_truediv (fst ((p # ps) ! j)) u) py_int = Inr (cs ! (2 * j)) \<and>
        bind_err (py_truediv (snd ((p # ps) ! j)) u) py_int = Inr (cs ! (2 * j + 1)))"
      using l cs by simp
  next
    assume h: "length cs = 2 * length (p # ps) \<and>
     (\<forall>j < length (p # ps).
        bind_err (py_truediv (fst ((p # ps) ! j)) u) py_int = Inr (cs ! (2 * j)) \<and>
        bind_err (py_truediv (snd ((p # ps) ! j)) u) py_int = Inr (cs ! (2 * j + 1)))"
    then obtain cx cy cs' where cs: "cs = cx # cy # cs'"
      by (cases cs; cases "tl cs") auto
    from h have h0: "bind_err (py_truediv x u) py_int = Inr cx"
        "bind_err (py_truediv y u) py_int = Inr cy"
      unfolding cs p by force+
    have "bind_err (py_truediv (fst (ps ! j)) u) py_int = Inr (cs' ! (2 * j)) \<and>
        bind_err (py_truediv (snd (ps ! j)) u) py_int = Inr (cs' ! (2 * j + 1))"
      if "j < length ps" for j
      using h [THEN conjunct2, rule_format, of "Suc j"] that by (simp add: cs)
    moreover have "length cs' = 2 * length ps"
      using h by (simp add: cs)
    ultimately have "boundary_coords u ps = Inr cs'"
      using Cons.IH [of cs'] by blast
    then show "boundary_coords u (p # ps) = Inr cs"
      using h0 unfolding p cs by (auto simp: bind_err_Inr_iff)
  qed
qed


lemma float_1e6: "float_of_decimal 1000000 0 = 0x412E848000000000"
  by (simp add: float_eval)

lemma float_2e6: "float_of_decimal 2000000 0 = 0x413E848000000000"
  by (simp add: float_eval)

lemma coords_truncated_1:
  "boundary_coords (float_of_decimal 1 (- 6))
     [(float_of_decimal 15 (- 7), py_neg (float_of_decimal 15 (- 7)))] = Inr [1, - 1]"
proof -
  have a: "float_of_decimal 15 (- 7) = 0x3EB92A737110E454"
    by (simp add: float_eval)
  have b: "py_neg 0x3EB92A737110E454 = 0xBEB92A737110E454"
    by (simp add: py_neg_def)
  have c: "py_truediv 0x3EB92A737110E454 0x3EB0C6F7A0B5ED8D = Inr 0x3FF8000000000000"
    "py_truediv 0xBEB92A737110E454 0x3EB0C6F7A0B5ED8D = Inr 0xBFF8000000000000"
    by (simp_all add: py_truediv_def float_eval)
  have d: "py_int 0x3FF8000000000000 = Inr 1" "py_int 0xBFF8000000000000 = Inr (- 1)"
    by (simp_all add: py_int_def float_eval)
  show ?thesis
    by (simp add: a b c d float_1em6 bind_err_def)
qed

lemma coords_truncated_2:
  "boundary_coords (float_of_decimal 1 (- 6))
     [(float_of_decimal 33 (- 7), float_of_decimal 7 (- 7))] = Inr [3, 0]"
proof -
  have a: "float_of_decimal 33 (- 7) = 0x3ECBAEB22F9294C3"
    "float_of_decimal 7 (- 7) = 0x3EA77CF44765195F"
    by (simp_all add: float_eval)
  have c: "py_truediv 0x3ECBAEB22F9294C3 0x3EB0C6F7A0B5ED8D = Inr 0x400A666666666667"
    "py_truediv 0x3EA77CF44765195F 0x3EB0C6F7A0B5ED8D = Inr 0x3FE6666666666666"
    by (simp_all add: py_truediv_def float_eval)
  have d: "py_int 0x400A666666666667 = Inr 3" "py_int 0x3FE6666666666666 = Inr 0"
    by (simp_all add: py_int_def float_eval)
  show ?thesis
    by (simp add: a c d float_1em6 bind_err_def)
qed

lemma write_boundary_example3:
  "\<exists>w'. write_boundary 1 0
      ([(float_of_decimal 15 (- 7), py_neg (float_of_decimal 15 (- 7)))] @
       [(float_of_decimal 1 0, float_of_decimal 2 0)] @
       [(float_of_decimal 33 (- 7), float_of_decimal 7 (- 7))])
      (GDSWriter_init ''layout.gds'') = Inr w'"
proof -
  have c: "boundary_coords (float_of_decimal 1 (- 6))
      ([(float_of_decimal 15 (- 7), py_neg (float_of_decimal 15 (- 7)))] @
       [(float_of_decimal 1 0, float_of_decimal 2 0)] @
       [(float_of_decimal 33 (- 7), float_of_decimal 7 (- 7))])
     = Inr [1, - 1, 1000000, 2000000, 3, 0]"
    unfolding boundary_coords_around [OF refl] coords_truncated_1 coords_truncated_2
    by (simp add: bind_err_def)
  have p: "pack_all pack_i [1, - 1, 1000000, 2000000, 3, 0] =
      Inr [0x00, 0x00, 0x00, 0x01, 0xFF, 0xFF, 0xFF, 0xFF,
           0x00, 0x0F, 0x42, 0x40, 0x00, 0x1E, 0x84, 0x80,
           0x00, 0x00, 0x00, 0x03, 0x00, 0x00, 0x00, 0x00]"
    by (simp add: pack_i_def bind_err_def)
  show ?thesis
    unfolding write_boundary_def
    by (simp add: write_record_bytes bind_err_def pack_H_def GDSWriter_init_def
        c [simplified bind_err_def] p [simplified bind_err_def]
        del: boundary_coords.simps pack_all.simps append.simps)
qed

subsection \<open>Coordinates in database units\<close>

text \<open>
  C1. A writer whose unit size is the default \<^verbatim>\<open>1e-6\<close> writes a boundary whose point
  list contains the point (1.0, 2.0).

  The float quotient of 1.0 by the unit size is exactly 1000000.0 and that of 2.0 is exactly
  2000000.0, and \<^verbatim>\<open>int\<close> gives 1000000 and 2000000.

  For every point list, the coordinate list is computed exactly when every coordinate of
  every point can be divided by the unit size and converted, and then it has two entries
  for each point, in order: \<^verbatim>\<open>int(x / self.unit)\<close> and \<^verbatim>\<open>int(y / self.unit)\<close>, the float
  quotient truncated towards zero.

  So the coordinate list of this boundary is the coordinates of the points before, then the
  pair 1000000, 2000000, then the coordinates of the points after, and it is computed
  exactly when those of the points before and after are. Whenever the call returns, the
  bytes appended to the file are the five records of the boundary, and in the coordinate
  record the pair stands as the two big-endian 32-bit integers 00 0F 42 40 and
  00 1E 84 80, at the place of the point.
\<close>

theorem write_boundary_scales_point:
  assumes u: "unit w = float_of_decimal 1 (- 6)"
    and ok: "write_boundary layer dt (ps @ [(float_of_decimal 1 0, float_of_decimal 2 0)] @ qs) w
              = Inr w'"
  shows "py_truediv (float_of_decimal 1 0) (unit w) = Inr (float_of_decimal 1000000 0) \<and>
         py_int (float_of_decimal 1000000 0) = Inr 1000000 \<and>
         py_truediv (float_of_decimal 2 0) (unit w) = Inr (float_of_decimal 2000000 0) \<and>
         py_int (float_of_decimal 2000000 0) = Inr 2000000 \<and>
         (\<forall>points coords.
            boundary_coords (unit w) points = Inr coords \<longleftrightarrow>
              length coords = 2 * length points \<and>
              (\<forall>j < length points.
                 bind_err (py_truediv (fst (points ! j)) (unit w)) py_int = Inr (coords ! (2 * j)) \<and>
                 bind_err (py_truediv (snd (points ! j)) (unit w)) py_int
                   = Inr (coords ! (2 * j + 1)))) \<and>
         boundary_coords (unit w) (ps @ [(float_of_decimal 1 0, float_of_decimal 2 0)] @ qs) =
           bind_err (boundary_coords (unit w) ps) (\<lambda>cs.
           bind_err (boundary_coords (unit w) qs) (\<lambda>ds. Inr (cs @ [1000000, 2000000] @ ds))) \<and>
         (\<exists>cs ds bc bd.
           boundary_coords (unit w) ps = Inr cs \<and> length cs = 2 * length ps \<and>
           boundary_coords (unit w) qs = Inr ds \<and>
           boundary_coords (unit w) (ps @ [(float_of_decimal 1 0, float_of_decimal 2 0)] @ qs)
             = Inr (cs @ [1000000, 2000000] @ ds) \<and>
           pack_all pack_i cs = Inr bc \<and> pack_all pack_i ds = Inr bd \<and>
           file' w' = file' w @
             record_bytes 0x08 0x00 [] @
             record_bytes 0x0D 0x02 [word_of_int (layer div 2 ^ 8), word_of_int layer] @
             record_bytes 0x0E 0x02 [word_of_int (dt div 2 ^ 8), word_of_int dt] @
             record_bytes 0x10 0x03
               (bc @ [0x00, 0x0F, 0x42, 0x40, 0x00, 0x1E, 0x84, 0x80] @ bd) @
             record_bytes 0x11 0x00 [])"
proof -
  let ?pt = "(float_of_decimal 1 0, float_of_decimal 2 0)"
  from ok obtain w1 l w2 d w3 coords xy w4 where
      r1: "write_record 0x08 0x00 [] w = Inr w1"
    and l: "pack_H layer = Inr l"
    and r2: "write_record 0x0D 0x02 l w1 = Inr w2"
    and d: "pack_H dt = Inr d"
    and r3: "write_record 0x0E 0x02 d w2 = Inr w3"
    and c: "boundary_coords (unit w3) (ps @ [?pt] @ qs) = Inr coords"
    and x: "pack_all pack_i coords = Inr xy"
    and r4: "write_record 0x10 0x03 xy w3 = Inr w4"
    and r5: "write_record 0x11 0x00 [] w4 = Inr w'"
    unfolding write_boundary_def bind_err_Inr_iff by blast
  have l': "l = [word_of_int (layer div 2 ^ 8), word_of_int layer]"
    using l by (auto simp: pack_H_def split: if_splits)
  have d': "d = [word_of_int (dt div 2 ^ 8), word_of_int dt]"
    using d by (auto simp: pack_H_def split: if_splits)
  note w1 = write_record_Inr [OF r1] and w2 = write_record_Inr [OF r2]
    and w3 = write_record_Inr [OF r3] and w4 = write_record_Inr [OF r4]
    and w5 = write_record_Inr [OF r5]
  have u3: "unit w3 = unit w"
    using w1 w2 w3 by simp
  from c obtain cs ds where cs: "boundary_coords (unit w) ps = Inr cs"
    and ds: "boundary_coords (unit w) qs = Inr ds"
    and coords: "coords = cs @ [1000000, 2000000] @ ds"
    unfolding u3 boundary_coords_append bind_err_Inr_iff
    using boundary_coords_1_2 u by auto
  from x obtain bc bd where bc: "pack_all pack_i cs = Inr bc"
    and bd: "pack_all pack_i ds = Inr bd"
    and xy: "xy = bc @ [0x00, 0x0F, 0x42, 0x40, 0x00, 0x1E, 0x84, 0x80] @ bd"
    unfolding coords pack_all_append bind_err_Inr_iff
    using pack_i_pair by auto
  have "file' w' = file' w @
             record_bytes 0x08 0x00 [] @
             record_bytes 0x0D 0x02 l @
             record_bytes 0x0E 0x02 d @
             record_bytes 0x10 0x03 xy @
             record_bytes 0x11 0x00 []"
    using w1 w2 w3 w4 w5 by simp
  then have "\<exists>cs ds bc bd.
           boundary_coords (unit w) ps = Inr cs \<and> length cs = 2 * length ps \<and>
           boundary_coords (unit w) qs = Inr ds \<and>
           boundary_coords (unit w) (ps @ [(float_of_decimal 1 0, float_of_decimal 2 0)] @ qs)
             = Inr (cs @ [1000000, 2000000] @ ds) \<and>
           pack_all pack_i cs = Inr bc \<and> pack_all pack_i ds = Inr bd \<and>
           file' w' = file' w @
             record_bytes 0x08 0x00 [] @
             record_bytes 0x0D 0x02 [word_of_int (layer div 2 ^ 8), word_of_int layer] @
             record_bytes 0x0E 0x02 [word_of_int (dt div 2 ^ 8), word_of_int dt] @
             record_bytes 0x10 0x03
               (bc @ [0x00, 0x0F, 0x42, 0x40, 0x00, 0x1E, 0x84, 0x80] @ bd) @
             record_bytes 0x11 0x00 []"
    using cs ds bc bd boundary_coords_length [OF cs] c
    unfolding u3 coords xy l' d' by blast
  moreover have "py_truediv (float_of_decimal 1 0) (unit w) = Inr (float_of_decimal 1000000 0)"
      "py_int (float_of_decimal 1000000 0) = Inr 1000000"
      "py_truediv (float_of_decimal 2 0) (unit w) = Inr (float_of_decimal 2000000 0)"
      "py_int (float_of_decimal 2000000 0) = Inr 2000000"
    unfolding u float_1em6 float_1 float_2 float_1e6 float_2e6
    by (rule div_1_unit int_1e6 div_2_unit int_2e6)+
  moreover have "\<forall>points coords.
            boundary_coords (unit w) points = Inr coords \<longleftrightarrow>
              length coords = 2 * length points \<and>
              (\<forall>j < length points.
                 bind_err (py_truediv (fst (points ! j)) (unit w)) py_int = Inr (coords ! (2 * j)) \<and>
                 bind_err (py_truediv (snd (points ! j)) (unit w)) py_int
                   = Inr (coords ! (2 * j + 1)))"
    using boundary_coords_rule by blast
  ultimately show ?thesis
    using boundary_coords_around [OF u, of ps qs] by (intro conjI)
qed

text \<open>
  A new writer, layer 1, datatype 0, and three points: (1.5e-6, -1.5e-6), whose quotients
  1.5 and -1.5 are truncated to 1 and -1; (1.0, 2.0); and (3.3e-6, 7e-7), whose quotients
  3.3000000000000003 and 0.7 are truncated to 3 and 0. The call returns, and the file holds
  exactly the 48 bytes of the five records.
\<close>

theorem write_boundary_scales_point_witness:
  "unit (GDSWriter_init ''layout.gds'') = float_of_decimal 1 (- 6) \<and>
   (case write_boundary 1 0
           ([(float_of_decimal 15 (- 7), py_neg (float_of_decimal 15 (- 7)))] @
            [(float_of_decimal 1 0, float_of_decimal 2 0)] @
            [(float_of_decimal 33 (- 7), float_of_decimal 7 (- 7))])
           (GDSWriter_init ''layout.gds'') of
      Inl e \<Rightarrow> False
    | Inr w' \<Rightarrow>
        file' w' =
          [0x00, 0x04, 0x08, 0x00,
           0x00, 0x06, 0x0D, 0x02, 0x00, 0x01,
           0x00, 0x06, 0x0E, 0x02, 0x00, 0x00,
           0x00, 0x1C, 0x10, 0x03,
             0x00, 0x00, 0x00, 0x01, 0xFF, 0xFF, 0xFF, 0xFF,
             0x00, 0x0F, 0x42, 0x40, 0x00, 0x1E, 0x84, 0x80,
             0x00, 0x00, 0x00, 0x03, 0x00, 0x00, 0x00, 0x00,
           0x00, 0x04, 0x11, 0x00])"
proof -
  let ?w = "GDSWriter_init ''layout.gds''"
  let ?ps = "[(float_of_decimal 15 (- 7), py_neg (float_of_decimal 15 (- 7)))]"
  let ?qs = "[(float_of_decimal 33 (- 7), float_of_decimal 7 (- 7))]"
  have u: "unit ?w = float_of_decimal 1 (- 6)" and f: "file' ?w = []"
    by (simp_all add: GDSWriter_init_def)
  obtain w' where ok: "write_boundary 1 0
      (?ps @ [(float_of_decimal 1 0, float_of_decimal 2 0)] @ ?qs) ?w = Inr w'"
    using write_boundary_example3 by blast
  from write_boundary_scales_point [OF u ok]
  obtain cs ds bc bd where
      "boundary_coords (unit ?w) ?ps = Inr cs" "boundary_coords (unit ?w) ?qs = Inr ds"
      "pack_all pack_i cs = Inr bc" "pack_all pack_i ds = Inr bd"
    and fw: "file' w' = file' ?w @
             record_bytes 0x08 0x00 [] @
             record_bytes 0x0D 0x02 [word_of_int (1 div 2 ^ 8), word_of_int 1] @
             record_bytes 0x0E 0x02 [word_of_int (0 div 2 ^ 8), word_of_int 0] @
             record_bytes 0x10 0x03
               (bc @ [0x00, 0x0F, 0x42, 0x40, 0x00, 0x1E, 0x84, 0x80] @ bd) @
             record_bytes 0x11 0x00 []"
    by blast
  then have "cs = [1, - 1]" "ds = [3, 0]"
    unfolding u coords_truncated_1 coords_truncated_2 by simp_all
  with \<open>pack_all pack_i cs = Inr bc\<close> \<open>pack_all pack_i ds = Inr bd\<close>
  have "bc = [0x00, 0x00, 0x00, 0x01, 0xFF, 0xFF, 0xFF, 0xFF]"
    "bd = [0x00, 0x00, 0x00, 0x03, 0x00, 0x00, 0x00, 0x00]"
    by (auto simp: pack_i_def bind_err_def)
  with fw have "file' w' =
          [0x00, 0x04, 0x08, 0x00,
           0x00, 0x06, 0x0D, 0x02, 0x00, 0x01,
           0x00, 0x06, 0x0E, 0x02, 0x00, 0x00,
           0x00, 0x1C, 0x10, 0x03,
             0x00, 0x00, 0x00, 0x01, 0xFF, 0xFF, 0xFF, 0xFF,
             0x00, 0x0F, 0x42, 0x40, 0x00, 0x1E, 0x84, 0x80,
             0x00, 0x00, 0x00, 0x03, 0x00, 0x00, 0x00, 0x00,
           0x00, 0x04, 0x11, 0x00]"
    by (simp add: f record_bytes_def)
  then show ?thesis
    unfolding ok using u by simp
qed

subsection \<open>The header\<close>

text \<open>
  C3, as the script has it. On an open writer, \<^verbatim>\<open>write_header\<close> returns and appends
  exactly four records, in this order: the version record (tags 00 02, payload 600), the
  record of the two timestamps (tags 01 02), the library name (tags 02 06) and the units
  record (tags 03 05). The payload of the units record is two binary64 values: first the
  precision, then the unit size.
\<close>

theorem write_header_records:
  assumes "\<not> file_closed w" and "valid_datetime now"
  shows "write_header now w = Inr (w\<lparr>file' := file' w @
           record_bytes 0x00 0x02 [0x02, 0x58] @
           record_bytes 0x01 0x02
             (concat (map (\<lambda>v. [word_of_int (v div 2 ^ 8), word_of_int v])
                [year now, month now, day now, hour now, minute now, second now,
                 year now, month now, day now, hour now, minute now, second now])) @
           record_bytes 0x02 0x06 (ascii_bytes ''RPC_INTERFACE'' @ [0]) @
           record_bytes 0x03 0x05 (pack_d (precision w) @ pack_d (unit w))\<rparr>)"
proof -
  have v: "pack_H 600 = Inr [0x02, 0x58]"
    by (simp add: pack_H_def)
  show ?thesis
    unfolding write_header_def v pack_time_data [OF assms(2)]
    using assms(1)
    by (simp add: bind_err_def write_record_bytes ascii_bytes_def pack_d_def
        del: pack_all.simps)
qed

text \<open>A new writer, on 2 January 2024 at 03:04:05: the 72 bytes of the header.\<close>

theorem write_header_records_witness:
  "\<not> file_closed (GDSWriter_init ''layout.gds'') \<and>
   valid_datetime \<lparr>year = 2024, month = 1, day = 2, hour = 3, minute = 4, second = 5\<rparr> \<and>
   (case write_header \<lparr>year = 2024, month = 1, day = 2, hour = 3, minute = 4, second = 5\<rparr>
           (GDSWriter_init ''layout.gds'') of
      Inl e \<Rightarrow> False
    | Inr w' \<Rightarrow>
        file' w' =
          [0x00, 0x06, 0x00, 0x02, 0x02, 0x58,
           0x00, 0x1C, 0x01, 0x02,
             0x07, 0xE8, 0x00, 0x01, 0x00, 0x02, 0x00, 0x03, 0x00, 0x04, 0x00, 0x05,
             0x07, 0xE8, 0x00, 0x01, 0x00, 0x02, 0x00, 0x03, 0x00, 0x04, 0x00, 0x05,
           0x00, 0x12, 0x02, 0x06,
             0x52, 0x50, 0x43, 0x5F, 0x49, 0x4E, 0x54, 0x45, 0x52, 0x46, 0x41, 0x43, 0x45, 0x00,
           0x00, 0x14, 0x03, 0x05,
             0x3E, 0x11, 0x2E, 0x0B, 0xE8, 0x26, 0xD6, 0x95,
             0x3E, 0xB0, 0xC6, 0xF7, 0xA0, 0xB5, 0xED, 0x8D])"
proof -
  let ?w = "GDSWriter_init ''layout.gds''"
  let ?now = "\<lparr>year = 2024, month = 1, day = 2, hour = 3, minute = 4, second = 5\<rparr>"
  have o: "\<not> file_closed ?w"
    by (simp add: GDSWriter_init_def)
  have v: "valid_datetime ?now"
    by (simp add: valid_datetime_def)
  have f: "file' ?w = []" "precision ?w = 0x3E112E0BE826D695" "unit ?w = 0x3EB0C6F7A0B5ED8D"
    by (simp_all add: GDSWriter_init_def float_1em6 float_1em9)
  show ?thesis
    unfolding write_header_records [OF o v]
    using o v by (simp add: f record_bytes_def ascii_bytes_def pack_d_def)
qed


text \<open>
  The unit size does not come first: in the header of a new writer the payload of the
  units record, the last 16 of the 72 bytes, is the precision \<^verbatim>\<open>1e-9\<close> followed by the
  unit size \<^verbatim>\<open>1e-6\<close>, and differs from the two values in the other order.
\<close>

theorem write_header_units_order_counterexample:
  "case write_header \<lparr>year = 2024, month = 1, day = 2, hour = 3, minute = 4, second = 5\<rparr>
         (GDSWriter_init ''layout.gds'') of
     Inl e \<Rightarrow> False
   | Inr w' \<Rightarrow>
       length (file' w') = 72 \<and>
       drop 56 (file' w') = pack_d (precision (GDSWriter_init ''layout.gds'')) @
                            pack_d (unit (GDSWriter_init ''layout.gds'')) \<and>
       drop 56 (file' w') \<noteq> pack_d (unit (GDSWriter_init ''layout.gds'')) @
                                pack_d (precision (GDSWriter_init ''layout.gds''))"
  unfolding write_header_example
  by (simp add: pack_d_def GDSWriter_init_def float_1em6 float_1em9)

end
